theory Spec2Isabelle
  imports Complex_Main "HOL-Library.Log_Nat"
begin

section \<open>Python floats: IEEE 754 binary64\<close>

text \<open>
  The scalars of \<^verbatim>\<open>fusionsite.py\<close> are Python floats and NumPy \<^verbatim>\<open>float64\<close>
  values, both IEEE 754 binary64 numbers. A number is not-a-number, a signed
  infinity, or a finite value \<open>Fin s m e\<close> that stands for \<open>(-1)^s * m * 2^e\<close>
  with a mantissa \<open>0 \<le> m < 2^53\<close> and an exponent \<open>-1074 \<le> e \<le> 971\<close>; the two
  zeros are \<open>Fin False 0 (-1074)\<close> and \<open>Fin True 0 (-1074)\<close>. Every operation
  rounds its exact result to the nearest such value, ties to the even mantissa.
\<close>

datatype double = NaN | Inf bool | Fin bool int int

definition is_double :: "double \<Rightarrow> bool" where
  "is_double x = (case x of
      Fin s m e \<Rightarrow> 0 \<le> m \<and> m < 2 ^ 53 \<and> - 1074 \<le> e \<and> e \<le> 971 \<and> (2 ^ 52 \<le> m \<or> e = - 1074)
    | _ \<Rightarrow> True)"

text \<open>\<open>scale2 p q e\<close> is a fraction \<open>p' / q'\<close> equal to \<open>(p / q) / 2^e\<close>.\<close>

definition scale2 :: "int \<Rightarrow> int \<Rightarrow> int \<Rightarrow> int \<times> int" where
  "scale2 p q e = (if 0 \<le> e then (p, q * 2 ^ nat e) else (p * 2 ^ nat (- e), q))"

text \<open>\<open>ilog2 p q\<close> is the integer part of the binary logarithm of \<open>p / q\<close>, for \<open>0 < p\<close> and \<open>0 < q\<close>.\<close>

definition ilog2 :: "int \<Rightarrow> int \<Rightarrow> int" where
  "ilog2 p q = (let l = bitlen p - bitlen q in
     case scale2 p q l of (p', q') \<Rightarrow> if q' \<le> p' then l else l - 1)"

text \<open>\<open>round_even p q\<close> is the integer nearest to \<open>p / q\<close>, the even one of two equally near.\<close>

definition round_even :: "int \<Rightarrow> int \<Rightarrow> int" where
  "round_even p q = (let m = p div q; r = p mod q in
     if q < 2 * r \<or> (2 * r = q \<and> odd m) then m + 1 else m)"

text \<open>
  \<open>rnd2 s p q e\<close> is the binary64 value nearest to \<open>(-1)^s * (p / q) * 2^e\<close>
  (\<open>0 \<le> p\<close>, \<open>0 < q\<close>): 53 significant bits, subnormal below \<open>2^-1022\<close>, infinite
  from \<open>2^1024 - 2^970\<close> on. \<open>t\<close> is the exponent of the last kept bit.
\<close>

definition rnd2 :: "bool \<Rightarrow> int \<Rightarrow> int \<Rightarrow> int \<Rightarrow> double" where
  "rnd2 s p q e = (if p = 0 then Fin s 0 (- 1074) else
     let t = max (ilog2 p q + e - 52) (- 1074) in
     case scale2 p q (t - e) of (p', q') \<Rightarrow>
       let m = round_even p' q';
           t' = (if m = 2 ^ 53 then t + 1 else t);
           m' = (if m = 2 ^ 53 then 2 ^ 52 else m)
       in if 971 < t' then Inf s else Fin s m' t')"

definition rnd :: "bool \<Rightarrow> int \<Rightarrow> int \<Rightarrow> double" where
  "rnd s p q = rnd2 s p q 0"

text \<open>A decimal literal \<^verbatim>\<open>m e k\<close> of the source text: the double nearest to \<open>m * 10^k\<close>.\<close>

definition dec :: "int \<Rightarrow> int \<Rightarrow> double" where
  "dec m k = (if 0 \<le> k then rnd (m < 0) (\<bar>m\<bar> * 10 ^ nat k) 1
              else rnd (m < 0) \<bar>m\<bar> (10 ^ nat (- k)))"

definition signed :: "bool \<Rightarrow> int \<Rightarrow> int" where
  "signed s m = (if s then - m else m)"

fun dmul :: "double \<Rightarrow> double \<Rightarrow> double" where
  "dmul NaN _ = NaN"
| "dmul _ NaN = NaN"
| "dmul (Inf s) (Inf t) = Inf (s \<noteq> t)"
| "dmul (Inf s) (Fin t k f) = (if k = 0 then NaN else Inf (s \<noteq> t))"
| "dmul (Fin s m e) (Inf t) = (if m = 0 then NaN else Inf (s \<noteq> t))"
| "dmul (Fin s m e) (Fin t k f) = rnd2 (s \<noteq> t) (m * k) 1 (e + f)"

fun ddiv :: "double \<Rightarrow> double \<Rightarrow> double" where
  "ddiv NaN _ = NaN"
| "ddiv _ NaN = NaN"
| "ddiv (Inf s) (Inf t) = NaN"
| "ddiv (Inf s) (Fin t k f) = Inf (s \<noteq> t)"
| "ddiv (Fin s m e) (Inf t) = Fin (s \<noteq> t) 0 (- 1074)"
| "ddiv (Fin s m e) (Fin t k f) =
     (if k = 0 then (if m = 0 then NaN else Inf (s \<noteq> t))
      else rnd2 (s \<noteq> t) m k (e - f))"

fun dsub :: "double \<Rightarrow> double \<Rightarrow> double" where
  "dsub NaN _ = NaN"
| "dsub _ NaN = NaN"
| "dsub (Inf s) (Inf t) = (if s = t then NaN else Inf s)"
| "dsub (Inf s) (Fin t k f) = Inf s"
| "dsub (Fin s m e) (Inf t) = Inf (\<not> t)"
| "dsub (Fin s m e) (Fin t k f) =
     (let g = min e f;
          v = signed s m * 2 ^ nat (e - g) - signed t k * 2 ^ nat (f - g)
      in if v = 0 then Fin (m = 0 \<and> s \<and> \<not> t) 0 (- 1074)
         else rnd2 (v < 0) \<bar>v\<bar> 1 g)"

fun dneg :: "double \<Rightarrow> double" where
  "dneg NaN = NaN"
| "dneg (Inf s) = Inf (\<not> s)"
| "dneg (Fin s m e) = Fin (\<not> s) m e"

definition dadd :: "double \<Rightarrow> double \<Rightarrow> double" where
  "dadd a b = dsub a (dneg b)"

text \<open>Python's \<^verbatim>\<open>a > b\<close> on floats: false as soon as one side is not-a-number.\<close>

fun dgt :: "double \<Rightarrow> double \<Rightarrow> bool" where
  "dgt NaN _ = False"
| "dgt _ NaN = False"
| "dgt (Inf s) (Inf t) = (\<not> s \<and> t)"
| "dgt (Inf s) (Fin t k f) = (\<not> s)"
| "dgt (Fin s m e) (Inf t) = t"
| "dgt (Fin s m e) (Fin t k f) =
     (let g = min e f in signed t k * 2 ^ nat (f - g) < signed s m * 2 ^ nat (e - g))"


section \<open>Scalars of the program\<close>

text \<open>
  A scalar is a Python \<^verbatim>\<open>float\<close> or a NumPy \<^verbatim>\<open>float64\<close> (an element of an
  array such as \<^verbatim>\<open>np.linspace\<close> returns). Both hold a binary64 value and an
  operation between the two kinds yields a \<^verbatim>\<open>float64\<close>. They differ in division
  by zero: between two Python floats it raises \<^verbatim>\<open>ZeroDivisionError\<close>, with a
  \<^verbatim>\<open>float64\<close> on either side it returns an infinity or not-a-number (NumPy
  prints a warning, which is not modelled). A Python \<^verbatim>\<open>int\<close> argument such as
  \<^verbatim>\<open>15000\<close> is converted to the float of the same value by the first operation.
\<close>

datatype scalar = PyFloat double | NpFloat64 double

datatype error = ZeroDivisionError

fun dbl :: "scalar \<Rightarrow> double" where
  "dbl (PyFloat x) = x"
| "dbl (NpFloat64 x) = x"

fun is_np :: "scalar \<Rightarrow> bool" where
  "is_np (PyFloat x) = False"
| "is_np (NpFloat64 x) = True"

definition wrap :: "bool \<Rightarrow> double \<Rightarrow> scalar" where
  "wrap np x = (if np then NpFloat64 x else PyFloat x)"

fun is_zero :: "double \<Rightarrow> bool" where
  "is_zero (Fin s m e) = (m = 0)"
| "is_zero _ = False"

fun is_nan :: "double \<Rightarrow> bool" where
  "is_nan NaN = True"
| "is_nan _ = False"

definition smul :: "scalar \<Rightarrow> scalar \<Rightarrow> scalar" where
  "smul a b = wrap (is_np a \<or> is_np b) (dmul (dbl a) (dbl b))"

definition ssub :: "scalar \<Rightarrow> scalar \<Rightarrow> scalar" where
  "ssub a b = wrap (is_np a \<or> is_np b) (dsub (dbl a) (dbl b))"

text \<open>The quotient where no exception is raised.\<close>

definition sdiv :: "scalar \<Rightarrow> scalar \<Rightarrow> scalar" where
  "sdiv a b = wrap (is_np a \<or> is_np b) (ddiv (dbl a) (dbl b))"

text \<open>Python's \<^verbatim>\<open>a / b\<close>.\<close>

definition truediv :: "scalar \<Rightarrow> scalar \<Rightarrow> error + scalar" where
  "truediv a b =
     (if \<not> is_np a \<and> \<not> is_np b \<and> is_zero (dbl b) then Inl ZeroDivisionError
      else Inr (sdiv a b))"

text \<open>Python's \<^verbatim>\<open>a > b\<close> and \<^verbatim>\<open>a >= b\<close>; the source uses the first only.\<close>

definition sgt :: "scalar \<Rightarrow> scalar \<Rightarrow> bool" where
  "sgt a b = dgt (dbl a) (dbl b)"

definition sge :: "scalar \<Rightarrow> scalar \<Rightarrow> bool" where
  "sge a b = (\<not> is_nan (dbl a) \<and> \<not> is_nan (dbl b) \<and> \<not> dgt (dbl b) (dbl a))"

section \<open>The objective function\<close>

text \<open>
  \<^verbatim>\<open>
  def fusion(n, T, E, tau):
      reactivity = n * T
      reaction_rate = reactivity * E
      energy_loss = n * T / tau
      net_energy_output = reaction_rate - energy_loss
      return net_energy_output
  \<close>
\<close>

definition fusion :: "scalar \<Rightarrow> scalar \<Rightarrow> scalar \<Rightarrow> scalar \<Rightarrow> error + scalar" where
  "fusion n T E tau =
     (let reactivity = smul n T;
          reaction_rate = smul reactivity E
      in case truediv (smul n T) tau of
           Inl err \<Rightarrow> Inl err
         | Inr energy_loss \<Rightarrow>
             (let net_energy_output = ssub reaction_rate energy_loss
              in Inr net_energy_output))"

section \<open>The grid search\<close>

text \<open>
  \<^verbatim>\<open>
  def find_best_parameters(n_range, T_range, E_range, tau_range):
      max_output = -np.inf
      best_params = {}
      for n in n_range:
          for T in T_range:
              for E in E_range:
                  for tau in tau_range:
                      output = fusion(n, T, E, tau)
                      if output > max_output:
                          max_output = output
                          best_params = {'n': n, 'T': T, 'E': E, 'tau': tau}
      return best_params, max_output
  \<close>
  A dictionary is the list of its items in insertion order. The state of the
  loops is the pair of \<^verbatim>\<open>max_output\<close> and \<^verbatim>\<open>best_params\<close>; an exception of
  \<^verbatim>\<open>fusion\<close> leaves all four loops.
\<close>

type_synonym params = "(string \<times> scalar) list"

type_synonym search_state = "scalar \<times> params"

definition params_of :: "scalar \<Rightarrow> scalar \<Rightarrow> scalar \<Rightarrow> scalar \<Rightarrow> params" where
  "params_of n T E tau = [(''n'', n), (''T'', T), (''E'', E), (''tau'', tau)]"

fun loop_tau :: "scalar \<Rightarrow> scalar \<Rightarrow> scalar \<Rightarrow> scalar list \<Rightarrow> search_state \<Rightarrow> error + search_state" where
  "loop_tau n T E [] st = Inr st"
| "loop_tau n T E (tau # taus) (max_output, best_params) =
     (case fusion n T E tau of
        Inl err \<Rightarrow> Inl err
      | Inr output \<Rightarrow>
          loop_tau n T E taus
            (if sgt output max_output then (output, params_of n T E tau)
             else (max_output, best_params)))"

fun loop_E :: "scalar \<Rightarrow> scalar \<Rightarrow> scalar list \<Rightarrow> scalar list \<Rightarrow> search_state \<Rightarrow> error + search_state" where
  "loop_E n T [] tau_range st = Inr st"
| "loop_E n T (E # Es) tau_range st =
     (case loop_tau n T E tau_range st of
        Inl err \<Rightarrow> Inl err
      | Inr st' \<Rightarrow> loop_E n T Es tau_range st')"

fun loop_T :: "scalar \<Rightarrow> scalar list \<Rightarrow> scalar list \<Rightarrow> scalar list \<Rightarrow> search_state \<Rightarrow> error + search_state" where
  "loop_T n [] E_range tau_range st = Inr st"
| "loop_T n (T # Ts) E_range tau_range st =
     (case loop_E n T E_range tau_range st of
        Inl err \<Rightarrow> Inl err
      | Inr st' \<Rightarrow> loop_T n Ts E_range tau_range st')"

fun loop_n :: "scalar list \<Rightarrow> scalar list \<Rightarrow> scalar list \<Rightarrow> scalar list \<Rightarrow> search_state \<Rightarrow> error + search_state" where
  "loop_n [] T_range E_range tau_range st = Inr st"
| "loop_n (n # ns) T_range E_range tau_range st =
     (case loop_T n T_range E_range tau_range st of
        Inl err \<Rightarrow> Inl err
      | Inr st' \<Rightarrow> loop_n ns T_range E_range tau_range st')"

definition neg_inf :: scalar where
  "neg_inf = PyFloat (Inf True)"

definition find_best_parameters ::
  "scalar list \<Rightarrow> scalar list \<Rightarrow> scalar list \<Rightarrow> scalar list \<Rightarrow> error + (params \<times> scalar)" where
  "find_best_parameters n_range T_range E_range tau_range =
     (case loop_n n_range T_range E_range tau_range (neg_inf, []) of
        Inl err \<Rightarrow> Inl err
      | Inr (max_output, best_params) \<Rightarrow> Inr (best_params, max_output))"

section \<open>The parametric sweep\<close>

text \<open>
  Modelled from the spec: \<^verbatim>\<open>np.linspace\<close> is NumPy's function and not part of the
  repository. The spec's "100 equally spaced multiplier values over the closed
  interval [0.1, 2.0]" is rendered in binary64 the way NumPy computes it: the
  step is \<open>(stop - start) / (num - 1)\<close>, entry \<open>i\<close> is \<open>i * step + start\<close>, each
  operation rounded, and the last entry is set to \<open>stop\<close>. The entries are
  \<^verbatim>\<open>float64\<close> values.
\<close>

definition linspace :: "double \<Rightarrow> double \<Rightarrow> nat \<Rightarrow> scalar list" where
  "linspace start stop num =
     (let divisor = int num - 1;
          delta = dsub stop start;
          y0 = map (\<lambda>i. dec (int i) 0) [0..<num];
          y1 = (if 0 < divisor then
                  (let step = ddiv delta (dec divisor 0) in
                   if is_zero step then map (\<lambda>v. dmul (ddiv v (dec divisor 0)) delta) y0
                   else map (\<lambda>v. dmul v step) y0)
                else map (\<lambda>v. dmul v delta) y0);
          y2 = map (\<lambda>v. dadd v start) y1
      in map NpFloat64 (if 1 < num then y2[num - 1 := stop] else y2))"

text \<open>
  \<^verbatim>\<open>
  def create_parameter_impact_plots(selected_parameter, n, T, E, tau):
      param_range = np.linspace(0.1, 2, 100)
      outputs = []
      if selected_parameter == 'Particle Density':
          for val in param_range:
              outputs.append(fusion(val * n, T, E, tau))
          x_label = 'Particle Density Multiplier'
      elif selected_parameter == 'Temperature':
          for val in param_range:
              outputs.append(fusion(n, val * T, E, tau))
          x_label = 'Temperature Multiplier'
      elif selected_parameter == 'Energy Release':
          for val in param_range:
              outputs.append(fusion(n, T, val * E, tau))
          x_label = 'Energy Release Multiplier'
      else:  # Confinement Time
          for val in param_range:
              outputs.append(fusion(n, T, E, val * tau))
          x_label = 'Confinement Time Multiplier'
      fig = go.Figure(data=go.Scatter(x=param_range, y=outputs))
      fig.update_layout(title=f'Energy Output vs. {selected_parameter}',
                        xaxis_title=x_label,
                        yaxis_title='Energy Output')
      return fig
  \<close>
  The figure is the record of what the function puts into it. The four loops
  differ in their body only; \<open>append_outputs\<close> is the loop, with the list
  \<^verbatim>\<open>outputs\<close> as its state. An exception of \<^verbatim>\<open>fusion\<close> leaves the function.
\<close>

record figure =
  fig_x :: "scalar list"
  fig_y :: "scalar list"
  fig_title :: string
  fig_xaxis_title :: string
  fig_yaxis_title :: string

fun append_outputs ::
  "(scalar \<Rightarrow> error + scalar) \<Rightarrow> scalar list \<Rightarrow> scalar list \<Rightarrow> error + scalar list" where
  "append_outputs body [] outputs = Inr outputs"
| "append_outputs body (val # vals) outputs =
     (case body val of
        Inl err \<Rightarrow> Inl err
      | Inr out \<Rightarrow> append_outputs body vals (outputs @ [out]))"

definition create_parameter_impact_plots ::
  "string \<Rightarrow> scalar \<Rightarrow> scalar \<Rightarrow> scalar \<Rightarrow> scalar \<Rightarrow> error + figure" where
  "create_parameter_impact_plots selected_parameter n T E tau =
     (let param_range = linspace (dec 1 (- 1)) (dec 2 0) 100;
          outputs = []
      in case
           (if selected_parameter = ''Particle Density'' then
              (case append_outputs (\<lambda>val. fusion (smul val n) T E tau) param_range outputs of
                 Inl err \<Rightarrow> Inl err
               | Inr outputs \<Rightarrow> Inr (outputs, ''Particle Density Multiplier''))
            else if selected_parameter = ''Temperature'' then
              (case append_outputs (\<lambda>val. fusion n (smul val T) E tau) param_range outputs of
                 Inl err \<Rightarrow> Inl err
               | Inr outputs \<Rightarrow> Inr (outputs, ''Temperature Multiplier''))
            else if selected_parameter = ''Energy Release'' then
              (case append_outputs (\<lambda>val. fusion n T (smul val E) tau) param_range outputs of
                 Inl err \<Rightarrow> Inl err
               | Inr outputs \<Rightarrow> Inr (outputs, ''Energy Release Multiplier''))
            else
              (case append_outputs (\<lambda>val. fusion n T E (smul val tau)) param_range outputs of
                 Inl err \<Rightarrow> Inl err
               | Inr outputs \<Rightarrow> Inr (outputs, ''Confinement Time Multiplier'')))
         of
           Inl err \<Rightarrow> Inl err
         | Inr (outputs, x_label) \<Rightarrow>
             Inr \<lparr>fig_x = param_range, fig_y = outputs,
                  fig_title = ''Energy Output vs. '' @ selected_parameter,
                  fig_xaxis_title = x_label,
                  fig_yaxis_title = ''Energy Output''\<rparr>)"

section \<open>The search as one loop over the grid\<close>

text \<open>
  The four nested loops visit the points of the Cartesian product in the order
  of \<open>List.product\<close>: the first range varies slowest, the last fastest. \<open>scan\<close>
  is the loop body run over a list of points; \<open>grid\<close> is that list.
\<close>

type_synonym point = "scalar \<times> scalar \<times> scalar \<times> scalar"

fun objective :: "point \<Rightarrow> error + scalar" where
  "objective (n, T, E, tau) = fusion n T E tau"

fun params_at :: "point \<Rightarrow> params" where
  "params_at (n, T, E, tau) = params_of n T E tau"

fun scan :: "point list \<Rightarrow> search_state \<Rightarrow> error + search_state" where
  "scan [] st = Inr st"
| "scan (p # ps) (max_output, best_params) =
     (case objective p of
        Inl err \<Rightarrow> Inl err
      | Inr output \<Rightarrow>
          scan ps
            (if sgt output max_output then (output, params_at p)
             else (max_output, best_params)))"

definition grid :: "scalar list \<Rightarrow> scalar list \<Rightarrow> scalar list \<Rightarrow> scalar list \<Rightarrow> point list" where
  "grid n_range T_range E_range tau_range =
     List.product n_range (List.product T_range (List.product E_range tau_range))"

text \<open>
  The sweep, read branch by branch: the multipliers, the body of the loop the
  selector chooses, and the label it chooses.
\<close>

definition multipliers :: "scalar list" where
  "multipliers = linspace (dec 1 (- 1)) (dec 2 0) 100"

definition sweep_body :: "string \<Rightarrow> scalar \<Rightarrow> scalar \<Rightarrow> scalar \<Rightarrow> scalar \<Rightarrow> scalar \<Rightarrow> error + scalar" where
  "sweep_body selected_parameter n T E tau =
     (\<lambda>val. if selected_parameter = ''Particle Density'' then fusion (smul val n) T E tau
            else if selected_parameter = ''Temperature'' then fusion n (smul val T) E tau
            else if selected_parameter = ''Energy Release'' then fusion n T (smul val E) tau
            else fusion n T E (smul val tau))"

definition x_label_of :: "string \<Rightarrow> string" where
  "x_label_of selected_parameter =
     (if selected_parameter = ''Particle Density'' then ''Particle Density Multiplier''
      else if selected_parameter = ''Temperature'' then ''Temperature Multiplier''
      else if selected_parameter = ''Energy Release'' then ''Energy Release Multiplier''
      else ''Confinement Time Multiplier'')"

text \<open>The real number a finite double stands for.\<close>

definition fval :: "bool \<Rightarrow> int \<Rightarrow> int \<Rightarrow> real" where
  "fval s m e = of_int (signed s m) * 2 powi e"

fun dval :: "double \<Rightarrow> real" where
  "dval (Fin s m e) = fval s m e"
| "dval _ = 0"

text \<open>
  \<open>approx x r\<close>: the finite double \<open>x\<close> is the real number \<open>r\<close> up to a relative
  error of \<open>2^-50\<close>, which is below \<open>1e-15\<close>.
\<close>

fun approx :: "double \<Rightarrow> real \<Rightarrow> bool" where
  "approx (Fin s m e) r = (\<bar>fval s m e - r\<bar> \<le> \<bar>r\<bar> / 2 ^ 50)"
| "approx _ r = False"

section \<open>Inputs of the examples\<close>

text \<open>
  The spec's scenario for the search: \<open>n\<close> in \<open>[1e20, 2e20]\<close>, \<open>T\<close> in
  \<open>[5000, 10000]\<close>, \<open>E\<close> in \<open>[15, 20]\<close>, \<open>tau\<close> in \<open>[0.05, 0.1]\<close>.
\<close>

definition scenario_n :: "scalar list" where
  "scenario_n = [PyFloat (dec 1 20), PyFloat (dec 2 20)]"

definition scenario_T :: "scalar list" where
  "scenario_T = [PyFloat (dec 5000 0), PyFloat (dec 10000 0)]"

definition scenario_E :: "scalar list" where
  "scenario_E = [PyFloat (dec 15 0), PyFloat (dec 20 0)]"

definition scenario_tau :: "scalar list" where
  "scenario_tau = [PyFloat (dec 5 (- 2)), PyFloat (dec 1 (- 1))]"

text \<open>
  Two finite doubles far from one: \<open>2^1000\<close>, about \<open>1.07e301\<close>
  (\<^verbatim>\<open>2.0 ** 1000\<close>), and \<open>2^-1000\<close>, about \<open>9.33e-302\<close> (\<^verbatim>\<open>2.0 ** -1000\<close>).
\<close>

definition two_1000 :: double where
  "two_1000 = Fin False 4503599627370496 948"

definition two_m1000 :: double where
  "two_m1000 = Fin False 4503599627370496 (- 1052)"

section \<open>The objective function: closed form and the concrete scenario\<close>

text \<open>
  Claim C1. Whenever \<open>tau\<close> is not zero, \<open>fusion n T E tau\<close> raises nothing and
  returns \<open>n * T * E - n * T / tau\<close>, the operations being those of the floats in
  the order Python evaluates them. Neither finiteness of the arguments nor
  their kind matters.
\<close>

theorem fusion_closed_form:
  assumes "\<not> is_zero (dbl tau)"
  shows "fusion n T E tau = Inr (ssub (smul (smul n T) E) (sdiv (smul n T) tau))"
  using assms by (simp add: fusion_def truediv_def)

text \<open>Claim C1 at \<open>n = 2\<close>, \<open>T = 3\<close>, \<open>E = 4\<close>, \<open>tau = 0.5\<close>: the value is \<open>24 - 12\<close>.\<close>

theorem fusion_closed_form_witness:
  "\<not> is_zero (dbl (PyFloat (dec 5 (- 1))))
   \<and> fusion (PyFloat (dec 2 0)) (PyFloat (dec 3 0)) (PyFloat (dec 4 0)) (PyFloat (dec 5 (- 1)))
     = Inr (PyFloat (dec 12 0))"
proof -
  have nz: "\<not> is_zero (dbl (PyFloat (dec 5 (- 1))))" by code_simp
  have "ssub (smul (smul (PyFloat (dec 2 0)) (PyFloat (dec 3 0))) (PyFloat (dec 4 0)))
          (sdiv (smul (PyFloat (dec 2 0)) (PyFloat (dec 3 0))) (PyFloat (dec 5 (- 1))))
        = PyFloat (dec 12 0)"
    by code_simp
  with fusion_closed_form [OF nz, of "PyFloat (dec 2 0)" "PyFloat (dec 3 0)" "PyFloat (dec 4 0)"] nz
  show ?thesis by simp
qed

text \<open>
  Claim C8. At \<open>n = 1e20\<close>, \<open>T = 15000\<close>, \<open>E = 17.6\<close>, \<open>tau = 0.1\<close> the function
  returns \<open>1.14e25\<close>, with \<open>reaction_rate = 2.64e25\<close> and \<open>energy_loss = 1.5e25\<close>,
  each up to the rounding of binary64. The doubles computed are
  \<open>2.6400000000000003e25\<close>, \<open>1.4999999999999998e25\<close> and \<open>1.1400000000000005e25\<close>:
  each is its decimal value up to a relative error of \<open>2^-50\<close>, and the result
  lies between \<open>1.135e25\<close> and \<open>1.145e25\<close>, so that it is \<open>1.14e25\<close> in the three
  digits the application prints.
\<close>

theorem fusion_scenario:
  "smul (smul (PyFloat (dec 1 20)) (PyFloat (dec 15000 0))) (PyFloat (dec 176 (- 1)))
     = PyFloat (dec 26400000000000003 9)
   \<and> approx (dec 26400000000000003 9) (264 * 10 ^ 23)
   \<and> truediv (smul (PyFloat (dec 1 20)) (PyFloat (dec 15000 0))) (PyFloat (dec 1 (- 1)))
     = Inr (PyFloat (dec 14999999999999998 9))
   \<and> approx (dec 14999999999999998 9) (15 * 10 ^ 24)
   \<and> fusion (PyFloat (dec 1 20)) (PyFloat (dec 15000 0)) (PyFloat (dec 176 (- 1))) (PyFloat (dec 1 (- 1)))
     = Inr (PyFloat (dec 11400000000000005 9))
   \<and> approx (dec 11400000000000005 9) (114 * 10 ^ 23)
   \<and> 1135 * 10 ^ 22 \<le> dval (dec 11400000000000005 9)
   \<and> dval (dec 11400000000000005 9) < 1145 * 10 ^ 22"
  by code_simp

section \<open>Order of the floats\<close>

lemma signed_scale: 
  assumes "g \<le> e"
  shows "fval s m e = of_int (signed s m * 2 ^ nat (e - g)) * 2 powi g"
proof -
  have "(2::real) powi e = 2 powi (e - g) * 2 powi g"
    by (simp add: power_int_add [symmetric])
  moreover have "(2::real) powi (e - g) = 2 ^ nat (e - g)"
    using assms by (simp add: power_int_def)
  ultimately show ?thesis by (simp add: fval_def)
qed

lemma dgt_Fin: "dgt (Fin s m e) (Fin t k f) \<longleftrightarrow> fval t k f < fval s m e"
proof -
  define g where "g = min e f"
  have ge: "g \<le> e" and gf: "g \<le> f" by (simp_all add: g_def)
  have pos: "(0::real) < 2 powi g" by simp
  have "fval t k f < fval s m e \<longleftrightarrow>
        (of_int (signed t k * 2 ^ nat (f - g)) :: real) < of_int (signed s m * 2 ^ nat (e - g))"
    unfolding signed_scale [OF ge] signed_scale [OF gf]
    using pos by (simp only: mult_less_cancel_right_pos)
  also have "\<dots> \<longleftrightarrow> signed t k * 2 ^ nat (f - g) < signed s m * 2 ^ nat (e - g)"
    by (simp only: of_int_less_iff)
  finally show ?thesis by (simp add: g_def Let_def)
qed

lemma dgt_not_nan: "dgt a b \<Longrightarrow> \<not> is_nan a \<and> \<not> is_nan b"
  by (cases a; cases b) simp_all

lemma dgt_asym: "dgt a b \<Longrightarrow> \<not> dgt b a"
  by (cases a; cases b) (auto simp: dgt_Fin simp del: dgt.simps(7))

lemma dgt_trans: "dgt a b \<Longrightarrow> dgt b c \<Longrightarrow> dgt a c"
  by (cases a; cases b; cases c) (auto simp: dgt_Fin simp del: dgt.simps(7))

lemma dgt_cotrans: "\<not> is_nan a \<Longrightarrow> \<not> dgt b a \<Longrightarrow> dgt b c \<Longrightarrow> dgt a c"
  by (cases a; cases b; cases c) (auto simp: dgt_Fin simp del: dgt.simps(7))

lemma sge_sgt_trans: "sge a b \<Longrightarrow> sgt b c \<Longrightarrow> sgt a c"
  unfolding sge_def sgt_def by (blast intro: dgt_cotrans)

lemma sgt_trans: "sgt a b \<Longrightarrow> sgt b c \<Longrightarrow> sgt a c"
  unfolding sgt_def by (rule dgt_trans)

lemma sgt_not_sge: "sgt a b \<Longrightarrow> \<not> sge b a"
  by (simp add: sge_def sgt_def)

lemma not_sgt_sge: "\<not> is_nan (dbl a) \<Longrightarrow> \<not> is_nan (dbl b) \<Longrightarrow> \<not> sgt a b \<Longrightarrow> sge b a"
  by (simp add: sge_def sgt_def)

lemma sgt_not_nan: "sgt a b \<Longrightarrow> \<not> is_nan (dbl a)"
  unfolding sgt_def by (blast dest: dgt_not_nan)

lemma sgt_neg_inf: "sgt v neg_inf \<longleftrightarrow> \<not> is_nan (dbl v) \<and> dbl v \<noteq> Inf True"
  by (cases "dbl v") (auto simp: sgt_def neg_inf_def)

lemma pos_inf_max: "\<not> sgt v w" if "dbl w = Inf False"
  using that by (cases "dbl v") (auto simp: sgt_def)

lemma sgt_pos_inf: "\<not> is_nan (dbl w) \<Longrightarrow> dbl v = Inf False \<Longrightarrow> \<not> sgt v w \<Longrightarrow> dbl w = Inf False"
  by (cases "dbl w") (auto simp: sgt_def)

subsection \<open>The nested loops are one scan of the grid\<close>

lemma scan_append:
  "scan (xs @ ys) st = (case scan xs st of Inl err \<Rightarrow> Inl err | Inr st' \<Rightarrow> scan ys st')"
proof (induction xs arbitrary: st)
  case Nil
  show ?case by simp
next
  case (Cons p xs)
  obtain mx bp where st: "st = (mx, bp)" by (cases st)
  show ?case by (simp add: st Cons.IH split: sum.splits)
qed

lemma loop_tau_scan: "loop_tau n T E taus st = scan (map (\<lambda>tau. (n, T, E, tau)) taus) st"
proof (induction taus arbitrary: st)
  case Nil
  show ?case by simp
next
  case (Cons tau taus)
  obtain mx bp where st: "st = (mx, bp)" by (cases st)
  show ?case by (simp add: st Cons.IH split: sum.splits)
qed

lemma loop_E_scan:
  "loop_E n T Es taus st = scan (map (\<lambda>p. (n, T, p)) (List.product Es taus)) st"
  by (induction Es arbitrary: st)
     (simp_all add: scan_append loop_tau_scan comp_def split: sum.splits)

lemma loop_T_scan:
  "loop_T n Ts Es taus st = scan (map (Pair n) (List.product Ts (List.product Es taus))) st"
  by (induction Ts arbitrary: st)
     (simp_all add: scan_append loop_E_scan comp_def split: sum.splits)

lemma loop_n_scan: "loop_n ns Ts Es taus st = scan (grid ns Ts Es taus) st"
  unfolding grid_def
  by (induction ns arbitrary: st)
     (simp_all add: scan_append loop_T_scan split: sum.splits)

lemma find_best_parameters_scan:
  "find_best_parameters ns Ts Es taus =
     (case scan (grid ns Ts Es taus) (neg_inf, []) of
        Inl err \<Rightarrow> Inl err
      | Inr (mx, bp) \<Rightarrow> Inr (bp, mx))"
  by (simp add: find_best_parameters_def loop_n_scan)

lemma set_grid:
  "set (grid ns Ts Es taus) = {(n, T, E, tau). n \<in> set ns \<and> T \<in> set Ts \<and> E \<in> set Es \<and> tau \<in> set taus}"
  by (auto simp: grid_def)

lemma scan_returns:
  assumes "\<forall>q\<in>set ps. \<exists>v. objective q = Inr v"
  shows "\<exists>st'. scan ps st = Inr st'"
  using assms
proof (induction ps arbitrary: st)
  case Nil
  show ?case by simp
next
  case (Cons p ps)
  obtain mx bp where st: "st = (mx, bp)" by (cases st)
  from Cons.prems obtain v where v: "objective p = Inr v" by auto
  from Cons.prems have rest: "\<forall>q\<in>set ps. \<exists>v. objective q = Inr v" by simp
  show ?case using Cons.IH [OF rest] by (simp add: st v)
qed

lemma scan_Inr_all:
  assumes "scan ps st = Inr st'"
  shows "\<forall>q\<in>set ps. \<exists>v. objective q = Inr v"
  using assms
proof (induction ps arbitrary: st)
  case Nil
  show ?case by simp
next
  case (Cons p ps)
  obtain mx bp where st: "st = (mx, bp)" by (cases st)
  from Cons.prems obtain v where v: "objective p = Inr v"
    by (cases "objective p") (simp_all add: st)
  with Cons.prems Cons.IH show ?case by (auto simp: st)
qed

lemma scan_result:
  assumes "scan ps (mx, bp) = Inr (mx', bp')"
  shows "(mx' = mx \<and> bp' = bp \<and> (\<forall>q\<in>set ps. \<exists>v. objective q = Inr v \<and> \<not> sgt v mx))
       \<or> (\<exists>pre p post. ps = pre @ p # post \<and> objective p = Inr mx' \<and> bp' = params_at p
            \<and> sgt mx' mx
            \<and> (\<forall>q\<in>set pre. \<exists>v. objective q = Inr v \<and> \<not> sge v mx')
            \<and> (\<forall>q\<in>set post. \<exists>v. objective q = Inr v \<and> \<not> sgt v mx'))"
  using assms
proof (induction ps arbitrary: mx bp)
  case Nil
  then show ?case by simp
next
  case (Cons p ps)
  from Cons.prems obtain out where out: "objective p = Inr out"
    by (cases "objective p") simp_all
  show ?case
  proof (cases "sgt out mx")
    case True
    with Cons.prems out have run: "scan ps (out, params_at p) = Inr (mx', bp')" by simp
    from Cons.IH [OF run] show ?thesis
    proof (elim disjE conjE exE)
      assume same: "mx' = out" "bp' = params_at p"
        and rest: "\<forall>q\<in>set ps. \<exists>v. objective q = Inr v \<and> \<not> sgt v out"
      have "p # ps = [] @ p # ps \<and> objective p = Inr mx' \<and> bp' = params_at p \<and> sgt mx' mx
            \<and> (\<forall>q\<in>set []. \<exists>v. objective q = Inr v \<and> \<not> sge v mx')
            \<and> (\<forall>q\<in>set ps. \<exists>v. objective q = Inr v \<and> \<not> sgt v mx')"
        using same rest out True by simp
      then show ?thesis by blast
    next
      fix pre p' post
      assume split: "ps = pre @ p' # post" and p': "objective p' = Inr mx'" "bp' = params_at p'"
        and up: "sgt mx' out"
        and before: "\<forall>q\<in>set pre. \<exists>v. objective q = Inr v \<and> \<not> sge v mx'"
        and after: "\<forall>q\<in>set post. \<exists>v. objective q = Inr v \<and> \<not> sgt v mx'"
      have "\<not> sge out mx'" using up by (rule sgt_not_sge)
      with before out have before': "\<forall>q\<in>set (p # pre). \<exists>v. objective q = Inr v \<and> \<not> sge v mx'"
        by simp
      have "sgt mx' mx" using up True by (rule sgt_trans)
      with split p' before' after
      have "p # ps = (p # pre) @ p' # post \<and> objective p' = Inr mx' \<and> bp' = params_at p' \<and> sgt mx' mx
            \<and> (\<forall>q\<in>set (p # pre). \<exists>v. objective q = Inr v \<and> \<not> sge v mx')
            \<and> (\<forall>q\<in>set post. \<exists>v. objective q = Inr v \<and> \<not> sgt v mx')"
        by simp
      then show ?thesis by blast
    qed
  next
    case False
    with Cons.prems out have run: "scan ps (mx, bp) = Inr (mx', bp')" by simp
    from Cons.IH [OF run] show ?thesis
    proof (elim disjE conjE exE)
      assume "mx' = mx" "bp' = bp"
        and "\<forall>q\<in>set ps. \<exists>v. objective q = Inr v \<and> \<not> sgt v mx"
      with out False show ?thesis by simp
    next
      fix pre p' post
      assume split: "ps = pre @ p' # post" and p': "objective p' = Inr mx'" "bp' = params_at p'"
        and up: "sgt mx' mx"
        and before: "\<forall>q\<in>set pre. \<exists>v. objective q = Inr v \<and> \<not> sge v mx'"
        and after: "\<forall>q\<in>set post. \<exists>v. objective q = Inr v \<and> \<not> sgt v mx'"
      have "\<not> sge out mx'" using False up by (blast dest: sge_sgt_trans)
      with before out have before': "\<forall>q\<in>set (p # pre). \<exists>v. objective q = Inr v \<and> \<not> sge v mx'"
        by simp
      with split p' up after
      have "p # ps = (p # pre) @ p' # post \<and> objective p' = Inr mx' \<and> bp' = params_at p' \<and> sgt mx' mx
            \<and> (\<forall>q\<in>set (p # pre). \<exists>v. objective q = Inr v \<and> \<not> sge v mx')
            \<and> (\<forall>q\<in>set post. \<exists>v. objective q = Inr v \<and> \<not> sgt v mx')"
        by simp
      then show ?thesis by blast
    qed
  qed
qed

subsection \<open>Position in a product list\<close>

lemma product_split:
  assumes "List.product xs ys = pre @ (a, b) # post"
  shows "\<exists>xs1 xs2 ys1 ys2. xs = xs1 @ a # xs2 \<and> ys = ys1 @ b # ys2
           \<and> pre = List.product xs1 ys @ map (Pair a) ys1"
  using assms
proof (induction xs arbitrary: pre)
  case Nil
  then show ?case by simp
next
  case (Cons x xs)
  have later: ?case
    if l: "map (Pair x) ys @ us = pre" and r: "List.product xs ys = us @ (a, b) # post" for us
  proof -
    from Cons.IH [OF r] obtain xs1 xs2 ys1 ys2 where
      xs: "xs = xs1 @ a # xs2" and ys: "ys = ys1 @ b # ys2"
      and us: "us = List.product xs1 ys @ map (Pair a) ys1"
      by blast
    have "x # xs = (x # xs1) @ a # xs2" by (simp add: xs)
    moreover have "pre = List.product (x # xs1) ys @ map (Pair a) ys1"
      by (simp add: l [symmetric] us)
    ultimately show ?thesis using ys by blast
  qed
  from Cons.prems have eq: "map (Pair x) ys @ List.product xs ys = pre @ (a, b) # post" by simp
  then have "\<exists>us. (map (Pair x) ys = pre @ us \<and> us @ List.product xs ys = (a, b) # post)
     \<or> (map (Pair x) ys @ us = pre \<and> List.product xs ys = us @ (a, b) # post)"
    by (simp only: append_eq_append_conv2)
  then obtain us where
    "(map (Pair x) ys = pre @ us \<and> us @ List.product xs ys = (a, b) # post)
     \<or> (map (Pair x) ys @ us = pre \<and> List.product xs ys = us @ (a, b) # post)" ..
  then show ?case
  proof (elim disjE conjE)
    assume l: "map (Pair x) ys = pre @ us" and r: "us @ List.product xs ys = (a, b) # post"
    show ?thesis
    proof (cases us)
      case Nil
      with l r have "map (Pair x) ys @ [] = pre" "List.product xs ys = [] @ (a, b) # post"
        by simp_all
      then show ?thesis by (rule later)
    next
      case (Cons u us')
      with r have u: "u = (a, b)" by simp
      from l Cons u have "map (Pair x) ys = pre @ (a, b) # us'" by simp
      then have "\<exists>ys1 ys2. ys = ys1 @ ys2 \<and> pre = map (Pair x) ys1 \<and> (a, b) # us' = map (Pair x) ys2"
        by (simp only: map_eq_append_conv)
      then obtain ys1 ys2 where y: "ys = ys1 @ ys2" and p: "pre = map (Pair x) ys1"
        and m: "(a, b) # us' = map (Pair x) ys2"
        by (elim exE conjE) (rule that)
      from m have "\<exists>ys2'. ys2 = b # ys2' \<and> x = a"
        by (cases ys2) simp_all
      then obtain ys2' where y2: "ys2 = b # ys2'" and xa: "x = a"
        by (elim exE conjE) (rule that)
      have "x # xs = [] @ a # xs" by (simp add: xa)
      moreover have "ys = ys1 @ b # ys2'" by (simp add: y y2)
      moreover have "pre = List.product [] ys @ map (Pair a) ys1" by (simp add: p xa)
      ultimately show ?thesis by blast
    qed
  next
    assume "map (Pair x) ys @ us = pre" "List.product xs ys = us @ (a, b) # post"
    then show ?thesis by (rule later)
  qed
qed

section \<open>What the grid search returns\<close>

lemma find_best_result:
  assumes "find_best_parameters ns Ts Es taus = Inr (bp, mx)"
  shows "(bp = [] \<and> mx = neg_inf
          \<and> (\<forall>q\<in>set (grid ns Ts Es taus). \<exists>v. objective q = Inr v \<and> \<not> sgt v neg_inf))
       \<or> (\<exists>pre p post. grid ns Ts Es taus = pre @ p # post \<and> objective p = Inr mx
            \<and> bp = params_at p \<and> sgt mx neg_inf
            \<and> (\<forall>q\<in>set pre. \<exists>v. objective q = Inr v \<and> \<not> sge v mx)
            \<and> (\<forall>q\<in>set post. \<exists>v. objective q = Inr v \<and> \<not> sgt v mx))"
proof -
  from assms have "scan (grid ns Ts Es taus) (neg_inf, []) = Inr (mx, bp)"
    by (auto simp: find_best_parameters_scan split: sum.splits)
  from scan_result [OF this] show ?thesis by blast
qed

lemma find_best_returns:
  assumes "\<forall>q\<in>set (grid ns Ts Es taus). \<exists>v. objective q = Inr v"
  shows "\<exists>bp mx. find_best_parameters ns Ts Es taus = Inr (bp, mx)"
proof -
  from scan_returns [OF assms] obtain st where "scan (grid ns Ts Es taus) (neg_inf, []) = Inr st"
    by blast
  then show ?thesis by (cases st) (simp add: find_best_parameters_scan)
qed

lemma params_of_nonempty: "params_of n T E tau \<noteq> []"
  by (simp add: params_of_def)

lemma params_at_nonempty: "params_at p \<noteq> []"
  by (cases p) (simp add: params_of_def)

lemma find_best_point:
  assumes "find_best_parameters n_range T_range E_range tau_range = Inr (best_params, max_output)"
    and "best_params \<noteq> []"
  shows "\<exists>n\<in>set n_range. \<exists>T\<in>set T_range. \<exists>E\<in>set E_range. \<exists>tau\<in>set tau_range.
           best_params = params_of n T E tau \<and> fusion n T E tau = Inr max_output"
proof -
  from find_best_result [OF assms(1)] assms(2) obtain pre p post where
    g: "grid n_range T_range E_range tau_range = pre @ p # post"
    and p: "objective p = Inr max_output" "best_params = params_at p"
    by blast
  obtain n T E tau where q: "p = (n, T, E, tau)" by (cases p)
  have "p \<in> set (grid n_range T_range E_range tau_range)" by (simp add: g)
  then have "n \<in> set n_range" "T \<in> set T_range" "E \<in> set E_range" "tau \<in> set tau_range"
    by (simp_all add: set_grid q)
  with p q show ?thesis by auto
qed

text \<open>
  Claim C10. Whenever the search returns a non-empty \<^verbatim>\<open>best_params\<close>, it is the
  dictionary of a point whose four components are taken from the four ranges,
  and the value returned with it is the value of \<open>fusion\<close> at that point.
\<close>

theorem optimize_point_consistent:
  assumes "find_best_parameters n_range T_range E_range tau_range = Inr (best_params, max_output)"
    and "best_params \<noteq> []"
  shows "\<exists>n\<in>set n_range. \<exists>T\<in>set T_range. \<exists>E\<in>set E_range. \<exists>tau\<in>set tau_range.
           best_params = params_of n T E tau \<and> fusion n T E tau = Inr max_output"
  using assms by (rule find_best_point)

text \<open>
  Claim C2, as amended. When no evaluation over the product raises or is
  not-a-number and at least one is greater than minus infinity (so no range is
  empty), the search returns a point of the product together with its value,
  and that value is greater than or equal to the value at every point of the
  product.
\<close>

theorem optimize_maximal:
  assumes defined: "\<forall>n\<in>set n_range. \<forall>T\<in>set T_range. \<forall>E\<in>set E_range. \<forall>tau\<in>set tau_range.
             \<exists>v. fusion n T E tau = Inr v \<and> \<not> is_nan (dbl v)"
    and above: "\<exists>n\<in>set n_range. \<exists>T\<in>set T_range. \<exists>E\<in>set E_range. \<exists>tau\<in>set tau_range.
             \<exists>v. fusion n T E tau = Inr v \<and> sgt v neg_inf"
  shows "\<exists>n\<in>set n_range. \<exists>T\<in>set T_range. \<exists>E\<in>set E_range. \<exists>tau\<in>set tau_range. \<exists>max_output.
           find_best_parameters n_range T_range E_range tau_range
             = Inr (params_of n T E tau, max_output)
           \<and> fusion n T E tau = Inr max_output
           \<and> (\<forall>n'\<in>set n_range. \<forall>T'\<in>set T_range. \<forall>E'\<in>set E_range. \<forall>tau'\<in>set tau_range.
                \<exists>v. fusion n' T' E' tau' = Inr v \<and> sge max_output v)"
proof -
  let ?g = "grid n_range T_range E_range tau_range"
  from defined have all: "\<forall>q\<in>set ?g. \<exists>v. objective q = Inr v"
    by (fastforce simp: set_grid)
  from find_best_returns [OF all] obtain bp mx where
    run: "find_best_parameters n_range T_range E_range tau_range = Inr (bp, mx)" by blast
  from above obtain q0 v0 where q0: "q0 \<in> set ?g" "objective q0 = Inr v0" "sgt v0 neg_inf"
    by (fastforce simp: set_grid)
  have "bp \<noteq> []"
  proof
    assume empty: "bp = []"
    from find_best_result [OF run] show False
    proof (elim disjE conjE exE)
      assume "\<forall>q\<in>set ?g. \<exists>v. objective q = Inr v \<and> \<not> sgt v neg_inf"
      with q0 show False by auto
    next
      fix pre p post
      assume "bp = params_at p"
      with empty show False using params_at_nonempty [of p] by simp
    qed
  qed
  from find_best_point [OF run this] obtain n T E tau where
    pt: "n \<in> set n_range" "T \<in> set T_range" "E \<in> set E_range" "tau \<in> set tau_range"
      "bp = params_of n T E tau" "fusion n T E tau = Inr mx"
    by blast
  from find_best_result [OF run] \<open>bp \<noteq> []\<close> obtain pre p post where
    g: "?g = pre @ p # post" and up: "sgt mx neg_inf"
    and before: "\<forall>q\<in>set pre. \<exists>v. objective q = Inr v \<and> \<not> sge v mx"
    and after: "\<forall>q\<in>set post. \<exists>v. objective q = Inr v \<and> \<not> sgt v mx"
    and p: "objective p = Inr mx"
    by blast
  have mxn: "\<not> is_nan (dbl mx)" using up by (rule sgt_not_nan)
  have notgt: "\<not> sgt v mx" if "q \<in> set ?g" "objective q = Inr v" for q v
  proof -
    from that(1) g have "q \<in> set pre \<or> q = p \<or> q \<in> set post" by auto
    then show ?thesis
    proof (elim disjE)
      assume "q \<in> set pre"
      with before that(2) have "\<not> sge v mx" by auto
      then show ?thesis by (auto simp: sge_def sgt_def dest: dgt_asym dgt_not_nan)
    next
      assume "q = p"
      with p that(2) have "v = mx" by simp
      then show ?thesis by (auto simp: sgt_def dest: dgt_asym)
    next
      assume "q \<in> set post"
      with after that(2) show ?thesis by auto
    qed
  qed
  have "\<exists>v. fusion n' T' E' tau' = Inr v \<and> sge mx v"
    if "n' \<in> set n_range" "T' \<in> set T_range" "E' \<in> set E_range" "tau' \<in> set tau_range"
    for n' T' E' tau'
  proof -
    from defined that obtain v where v: "fusion n' T' E' tau' = Inr v" "\<not> is_nan (dbl v)"
      by blast
    have "(n', T', E', tau') \<in> set ?g" using that by (simp add: set_grid)
    from notgt [OF this] v(1) have "\<not> sgt v mx" by simp
    with v(2) mxn have "sge mx v" by (simp add: not_sgt_sge)
    with v(1) show ?thesis by blast
  qed
  with pt run show ?thesis by blast
qed

lemma find_best_nonempty:
  assumes run: "find_best_parameters ns Ts Es taus = Inr (bp, mx)"
    and q0: "q0 \<in> set (grid ns Ts Es taus)" "objective q0 = Inr v0" "sgt v0 neg_inf"
  shows "bp \<noteq> []"
proof
  assume empty: "bp = []"
  from find_best_result [OF run] show False
  proof (elim disjE conjE exE)
    assume "\<forall>q\<in>set (grid ns Ts Es taus). \<exists>v. objective q = Inr v \<and> \<not> sgt v neg_inf"
    with q0 show False by auto
  next
    fix pre p post
    assume "bp = params_at p"
    with empty show False using params_at_nonempty [of p] by simp
  qed
qed

lemma not_sge_not_sgt: "\<not> sge v w \<Longrightarrow> \<not> sgt v w"
  by (auto simp: sge_def sgt_def dest: dgt_asym dgt_not_nan)

lemma sgt_irrefl: "\<not> sgt v v"
  by (auto simp: sgt_def dest: dgt_asym)

lemma pos_inf_sge: "dbl v = Inf False \<Longrightarrow> \<not> is_nan (dbl w) \<Longrightarrow> sge v w"
  using pos_inf_max [of v w] by (simp add: sge_def sgt_def)

text \<open>
  Claim C3, as amended. When no evaluation over the product raises and at
  least one is greater than minus infinity, the search returns the point at
  positions \<open>ns1\<close>, \<open>Ts1\<close>, \<open>Es1\<close>, \<open>taus1\<close> of the four ranges together with its
  value, which is a number greater than minus infinity and not not-a-number.
  No point of the product has a greater value, and every point visited before
  it (an earlier \<open>n\<close>; the same \<open>n\<close> and an earlier \<open>T\<close>; the same \<open>n\<close>, \<open>T\<close> and an
  earlier \<open>E\<close>; the same \<open>n\<close>, \<open>T\<close>, \<open>E\<close> and an earlier \<open>tau\<close>) has a value that is
  not greater than or equal to the one returned: it is strictly smaller or
  not-a-number. Among the points that attain the largest value the point
  returned is the first in the order of the nested loops.
\<close>

theorem optimize_first_maximizer:
  assumes defined: "\<forall>n\<in>set n_range. \<forall>T\<in>set T_range. \<forall>E\<in>set E_range. \<forall>tau\<in>set tau_range.
             \<exists>v. fusion n T E tau = Inr v"
    and above: "\<exists>n\<in>set n_range. \<exists>T\<in>set T_range. \<exists>E\<in>set E_range. \<exists>tau\<in>set tau_range.
             \<exists>v. fusion n T E tau = Inr v \<and> sgt v neg_inf"
  shows "\<exists>ns1 n ns2 Ts1 T Ts2 Es1 E Es2 taus1 tau taus2 max_output.
           n_range = ns1 @ n # ns2 \<and> T_range = Ts1 @ T # Ts2
           \<and> E_range = Es1 @ E # Es2 \<and> tau_range = taus1 @ tau # taus2
           \<and> find_best_parameters n_range T_range E_range tau_range
               = Inr (params_of n T E tau, max_output)
           \<and> fusion n T E tau = Inr max_output
           \<and> \<not> is_nan (dbl max_output) \<and> sgt max_output neg_inf
           \<and> (\<forall>n'\<in>set n_range. \<forall>T'\<in>set T_range. \<forall>E'\<in>set E_range. \<forall>tau'\<in>set tau_range.
                \<exists>v. fusion n' T' E' tau' = Inr v \<and> \<not> sgt v max_output)
           \<and> (\<forall>n'\<in>set ns1. \<forall>T'\<in>set T_range. \<forall>E'\<in>set E_range. \<forall>tau'\<in>set tau_range.
                \<exists>v. fusion n' T' E' tau' = Inr v \<and> \<not> sge v max_output)
           \<and> (\<forall>T'\<in>set Ts1. \<forall>E'\<in>set E_range. \<forall>tau'\<in>set tau_range.
                \<exists>v. fusion n T' E' tau' = Inr v \<and> \<not> sge v max_output)
           \<and> (\<forall>E'\<in>set Es1. \<forall>tau'\<in>set tau_range.
                \<exists>v. fusion n T E' tau' = Inr v \<and> \<not> sge v max_output)
           \<and> (\<forall>tau'\<in>set taus1.
                \<exists>v. fusion n T E tau' = Inr v \<and> \<not> sge v max_output)"
proof -
  let ?R2 = "List.product E_range tau_range"
  let ?R1 = "List.product T_range ?R2"
  let ?g = "grid n_range T_range E_range tau_range"
  have g_def': "?g = List.product n_range ?R1" by (simp add: grid_def)
  from defined have all: "\<forall>q\<in>set ?g. \<exists>v. objective q = Inr v"
    by (fastforce simp: set_grid)
  from find_best_returns [OF all] obtain bp mx where
    run: "find_best_parameters n_range T_range E_range tau_range = Inr (bp, mx)" by blast
  from above obtain q0 v0 where q0: "q0 \<in> set ?g" "objective q0 = Inr v0" "sgt v0 neg_inf"
    by (fastforce simp: set_grid)
  have ne: "bp \<noteq> []" using run q0 by (rule find_best_nonempty)
  from find_best_result [OF run] ne obtain pre p post where
    g: "?g = pre @ p # post" and bp: "bp = params_at p" and up: "sgt mx neg_inf"
    and before: "\<forall>q\<in>set pre. \<exists>v. objective q = Inr v \<and> \<not> sge v mx"
    and after: "\<forall>q\<in>set post. \<exists>v. objective q = Inr v \<and> \<not> sgt v mx"
    and p: "objective p = Inr mx"
    by blast
  obtain n T E tau where q: "p = (n, T, E, tau)" by (cases p)
  from g q g_def' have s1: "List.product n_range ?R1 = pre @ (n, (T, E, tau)) # post" by simp
  from product_split [OF s1] obtain ns1 ns2 r1 r1' where
    ns: "n_range = ns1 @ n # ns2" and R1: "?R1 = r1 @ (T, (E, tau)) # r1'"
    and pre: "pre = List.product ns1 ?R1 @ map (Pair n) r1"
    by (elim exE conjE)
  from product_split [OF R1] obtain Ts1 Ts2 r2 r2' where
    Ts: "T_range = Ts1 @ T # Ts2" and R2: "?R2 = r2 @ (E, tau) # r2'"
    and r1: "r1 = List.product Ts1 ?R2 @ map (Pair T) r2"
    by (elim exE conjE)
  from product_split [OF R2] obtain Es1 Es2 taus1 taus2 where
    Es: "E_range = Es1 @ E # Es2" and taus: "tau_range = taus1 @ tau # taus2"
    and r2: "r2 = List.product Es1 tau_range @ map (Pair E) taus1"
    by (elim exE conjE)
  have earlier: "\<exists>v. fusion n' T' E' tau' = Inr v \<and> \<not> sge v mx"
    if "(n', T', E', tau') \<in> set pre" for n' T' E' tau'
    using before that by fastforce
  have c1: "\<forall>n'\<in>set ns1. \<forall>T'\<in>set T_range. \<forall>E'\<in>set E_range. \<forall>tau'\<in>set tau_range.
              \<exists>v. fusion n' T' E' tau' = Inr v \<and> \<not> sge v mx"
  proof (intro ballI)
    fix n' T' E' tau'
    assume "n' \<in> set ns1" "T' \<in> set T_range" "E' \<in> set E_range" "tau' \<in> set tau_range"
    then have "(n', T', E', tau') \<in> set (List.product ns1 ?R1)" by simp
    then have "(n', T', E', tau') \<in> set pre" by (simp add: pre)
    then show "\<exists>v. fusion n' T' E' tau' = Inr v \<and> \<not> sge v mx" by (rule earlier)
  qed
  have c2: "\<forall>T'\<in>set Ts1. \<forall>E'\<in>set E_range. \<forall>tau'\<in>set tau_range.
              \<exists>v. fusion n T' E' tau' = Inr v \<and> \<not> sge v mx"
  proof (intro ballI)
    fix T' E' tau'
    assume "T' \<in> set Ts1" "E' \<in> set E_range" "tau' \<in> set tau_range"
    then have "(T', E', tau') \<in> set (List.product Ts1 ?R2)" by simp
    then have "(T', E', tau') \<in> set r1" by (simp add: r1)
    then have "(n, T', E', tau') \<in> set pre" by (simp add: pre)
    then show "\<exists>v. fusion n T' E' tau' = Inr v \<and> \<not> sge v mx" by (rule earlier)
  qed
  have c3: "\<forall>E'\<in>set Es1. \<forall>tau'\<in>set tau_range.
              \<exists>v. fusion n T E' tau' = Inr v \<and> \<not> sge v mx"
  proof (intro ballI)
    fix E' tau'
    assume "E' \<in> set Es1" "tau' \<in> set tau_range"
    then have "(E', tau') \<in> set (List.product Es1 tau_range)" by simp
    then have "(E', tau') \<in> set r2" by (simp add: r2)
    then have "(T, E', tau') \<in> set r1" by (simp add: r1)
    then have "(n, T, E', tau') \<in> set pre" by (simp add: pre)
    then show "\<exists>v. fusion n T E' tau' = Inr v \<and> \<not> sge v mx" by (rule earlier)
  qed
  have c4: "\<forall>tau'\<in>set taus1. \<exists>v. fusion n T E tau' = Inr v \<and> \<not> sge v mx"
  proof (intro ballI)
    fix tau'
    assume "tau' \<in> set taus1"
    then have "(E, tau') \<in> set r2" by (simp add: r2)
    then have "(T, E, tau') \<in> set r1" by (simp add: r1)
    then have "(n, T, E, tau') \<in> set pre" by (simp add: pre)
    then show "\<exists>v. fusion n T E tau' = Inr v \<and> \<not> sge v mx" by (rule earlier)
  qed
  have c0: "\<forall>n'\<in>set n_range. \<forall>T'\<in>set T_range. \<forall>E'\<in>set E_range. \<forall>tau'\<in>set tau_range.
              \<exists>v. fusion n' T' E' tau' = Inr v \<and> \<not> sgt v mx"
  proof (intro ballI)
    fix n' T' E' tau'
    assume "n' \<in> set n_range" "T' \<in> set T_range" "E' \<in> set E_range" "tau' \<in> set tau_range"
    then have "(n', T', E', tau') \<in> set ?g" by (simp add: set_grid)
    with g have "(n', T', E', tau') \<in> set pre \<or> (n', T', E', tau') = p
                 \<or> (n', T', E', tau') \<in> set post" by auto
    then show "\<exists>v. fusion n' T' E' tau' = Inr v \<and> \<not> sgt v mx"
    proof (elim disjE)
      assume "(n', T', E', tau') \<in> set pre"
      from earlier [OF this] show ?thesis by (blast dest: not_sge_not_sgt)
    next
      assume "(n', T', E', tau') = p"
      with p have "fusion n' T' E' tau' = Inr mx" by auto
      then show ?thesis by (simp add: sgt_irrefl)
    next
      assume "(n', T', E', tau') \<in> set post"
      with after show ?thesis by fastforce
    qed
  qed
  from run bp q have run': "find_best_parameters n_range T_range E_range tau_range
      = Inr (params_of n T E tau, mx)" by simp
  from p q have val: "fusion n T E tau = Inr mx" by simp
  have nn: "\<not> is_nan (dbl mx)" using up by (rule sgt_not_nan)
  from ns Ts Es taus run' val nn up c0 c1 c2 c3 c4 show ?thesis by blast
qed

text \<open>
  Claim C4, as amended. With an empty range the search raises nothing and
  returns the empty dictionary with minus infinity. With one element in each
  range, whose evaluation returns a value greater than minus infinity, the
  search returns that combination and its value.
\<close>

theorem optimize_boundary:
  "(n_range = [] \<or> T_range = [] \<or> E_range = [] \<or> tau_range = []
      \<longrightarrow> find_best_parameters n_range T_range E_range tau_range = Inr ([], neg_inf))
   \<and> (fusion n T E tau = Inr v \<and> sgt v neg_inf
      \<longrightarrow> find_best_parameters [n] [T] [E] [tau] = Inr (params_of n T E tau, v))"
proof (intro conjI impI)
  assume "n_range = [] \<or> T_range = [] \<or> E_range = [] \<or> tau_range = []"
  then have "set (grid n_range T_range E_range tau_range) = {}" by (auto simp: set_grid)
  then have "grid n_range T_range E_range tau_range = []" by (simp only: set_empty)
  then show "find_best_parameters n_range T_range E_range tau_range = Inr ([], neg_inf)"
    by (simp add: find_best_parameters_scan)
next
  assume "fusion n T E tau = Inr v \<and> sgt v neg_inf"
  then show "find_best_parameters [n] [T] [E] [tau] = Inr (params_of n T E tau, v)"
    by (simp add: find_best_parameters_def)
qed

text \<open>
  Claim C7, as amended. The value the search returns is never not-a-number,
  and a point returned never has the value minus infinity: such evaluations
  lose every comparison. Plus infinity wins: if some evaluation yields it, the
  search returns a point with the value plus infinity.
\<close>

theorem optimize_nonfinite:
  assumes run: "find_best_parameters n_range T_range E_range tau_range = Inr (best_params, max_output)"
  shows "\<not> is_nan (dbl max_output)
       \<and> (best_params \<noteq> [] \<longrightarrow> dbl max_output \<noteq> Inf True)
       \<and> ((\<exists>n\<in>set n_range. \<exists>T\<in>set T_range. \<exists>E\<in>set E_range. \<exists>tau\<in>set tau_range.
             \<exists>v. fusion n T E tau = Inr v \<and> dbl v = Inf False)
           \<longrightarrow> best_params \<noteq> [] \<and> dbl max_output = Inf False)"
proof -
  let ?g = "grid n_range T_range E_range tau_range"
  from find_best_result [OF run] show ?thesis
  proof (elim disjE conjE exE)
    assume e: "best_params = []" "max_output = neg_inf"
      and low: "\<forall>q\<in>set ?g. \<exists>v. objective q = Inr v \<and> \<not> sgt v neg_inf"
    have "\<not> (\<exists>n\<in>set n_range. \<exists>T\<in>set T_range. \<exists>E\<in>set E_range. \<exists>tau\<in>set tau_range.
             \<exists>v. fusion n T E tau = Inr v \<and> dbl v = Inf False)"
    proof
      assume "\<exists>n\<in>set n_range. \<exists>T\<in>set T_range. \<exists>E\<in>set E_range. \<exists>tau\<in>set tau_range.
             \<exists>v. fusion n T E tau = Inr v \<and> dbl v = Inf False"
      then obtain q v where "q \<in> set ?g" "objective q = Inr v" "dbl v = Inf False"
        by (fastforce simp: set_grid)
      with low show False by (fastforce simp: sgt_neg_inf)
    qed
    with e show ?thesis by (simp add: neg_inf_def)
  next
    fix pre p post
    assume g: "?g = pre @ p # post" and p: "objective p = Inr max_output"
      and bp: "best_params = params_at p" and up: "sgt max_output neg_inf"
      and before: "\<forall>q\<in>set pre. \<exists>v. objective q = Inr v \<and> \<not> sge v max_output"
      and after: "\<forall>q\<in>set post. \<exists>v. objective q = Inr v \<and> \<not> sgt v max_output"
    from up have nn: "\<not> is_nan (dbl max_output)" and nm: "dbl max_output \<noteq> Inf True"
      by (simp_all add: sgt_neg_inf)
    have ne: "best_params \<noteq> []" by (simp add: bp params_at_nonempty)
    have "dbl max_output = Inf False"
      if "\<exists>n\<in>set n_range. \<exists>T\<in>set T_range. \<exists>E\<in>set E_range. \<exists>tau\<in>set tau_range.
             \<exists>v. fusion n T E tau = Inr v \<and> dbl v = Inf False"
    proof -
      from that obtain q v where qv: "q \<in> set ?g" "objective q = Inr v" "dbl v = Inf False"
        by (fastforce simp: set_grid)
      from qv(1) g have "q \<in> set pre \<or> q = p \<or> q \<in> set post" by auto
      then show ?thesis
      proof (elim disjE)
        assume "q \<in> set pre"
        with before qv(2) have "\<not> sge v max_output" by auto
        with pos_inf_sge [OF qv(3) nn] show ?thesis by simp
      next
        assume "q = p"
        with p qv show ?thesis by simp
      next
        assume "q \<in> set post"
        with after qv(2) have "\<not> sgt v max_output" by auto
        with nn qv(3) show ?thesis by (rule sgt_pos_inf)
      qed
    qed
    with nn nm ne show ?thesis by blast
  qed
qed

section \<open>The grid search on concrete ranges\<close>

text \<open>
  Claim C10 on the spec's scenario: of the 16 combinations the search returns
  \<open>n = 2e20\<close>, \<open>T = 10000\<close>, \<open>E = 20\<close>, \<open>tau = 0.1\<close> with the value
  \<open>1.9999999999999998e25\<close>.
\<close>

theorem optimize_point_consistent_witness:
  "find_best_parameters scenario_n scenario_T scenario_E scenario_tau
     = Inr (params_of (PyFloat (dec 2 20)) (PyFloat (dec 10000 0)) (PyFloat (dec 20 0))
              (PyFloat (dec 1 (- 1))),
            PyFloat (dec 19999999999999998 9))
   \<and> (\<exists>n\<in>set scenario_n. \<exists>T\<in>set scenario_T. \<exists>E\<in>set scenario_E. \<exists>tau\<in>set scenario_tau.
          params_of (PyFloat (dec 2 20)) (PyFloat (dec 10000 0)) (PyFloat (dec 20 0))
              (PyFloat (dec 1 (- 1)))
            = params_of n T E tau
          \<and> fusion n T E tau = Inr (PyFloat (dec 19999999999999998 9)))"
proof -
  have run: "find_best_parameters scenario_n scenario_T scenario_E scenario_tau
     = Inr (params_of (PyFloat (dec 2 20)) (PyFloat (dec 10000 0)) (PyFloat (dec 20 0))
              (PyFloat (dec 1 (- 1))),
            PyFloat (dec 19999999999999998 9))"
    by code_simp
  have ne: "params_of (PyFloat (dec 2 20)) (PyFloat (dec 10000 0)) (PyFloat (dec 20 0))
              (PyFloat (dec 1 (- 1))) \<noteq> []"
    by (rule params_of_nonempty)
  from optimize_point_consistent [OF run ne] run show ?thesis by blast
qed

text \<open>
  Claim C2, as stated, fails: with the one-element ranges \<open>[2^1000]\<close>, \<open>[1]\<close>,
  \<open>[1]\<close>, \<open>[2^-1000]\<close> the quotient overflows, the only evaluation is minus
  infinity, and the search returns no point of the product.
\<close>

theorem optimize_overflow_no_point:
  "find_best_parameters [PyFloat two_1000] [PyFloat (dec 1 0)] [PyFloat (dec 1 0)]
      [PyFloat two_m1000]
   = Inr ([], neg_inf)"
  by code_simp

text \<open>
  Claim C3, as stated, fails: two points that both evaluate to minus infinity
  attain the largest value of the product, and the search returns neither.
\<close>

theorem optimize_tie_at_minus_infinity:
  "fusion (PyFloat two_1000) (PyFloat (dec 1 0)) (PyFloat (dec 1 0)) (PyFloat two_m1000)
     = Inr (PyFloat (Inf True))
   \<and> fusion (PyFloat two_1000) (PyFloat (dec 1 0)) (PyFloat (dec 2 0)) (PyFloat two_m1000)
     = Inr (PyFloat (Inf True))
   \<and> find_best_parameters [PyFloat two_1000] [PyFloat (dec 1 0)]
        [PyFloat (dec 1 0), PyFloat (dec 2 0)] [PyFloat two_m1000]
     = Inr ([], neg_inf)"
  by code_simp

text \<open>
  Claim C4, as stated, fails: with an empty range the search does not fail.
\<close>

theorem optimize_empty_range_no_error:
  "find_best_parameters [] [PyFloat (dec 15000 0)] [PyFloat (dec 176 (- 1))] [PyFloat (dec 1 (- 1))]
   = Inr ([], neg_inf)"
  by code_simp

text \<open>
  Claim C7, as stated, fails: an evaluation that overflows to plus infinity is
  returned as the best value, with its point.
\<close>

theorem optimize_returns_plus_infinity:
  "fusion (PyFloat two_1000) (PyFloat (dec 1 0)) (PyFloat two_1000) (PyFloat (dec 1 0))
     = Inr (PyFloat (Inf False))
   \<and> find_best_parameters [PyFloat two_1000] [PyFloat (dec 1 0)] [PyFloat two_1000] [PyFloat (dec 1 0)]
     = Inr (params_of (PyFloat two_1000) (PyFloat (dec 1 0)) (PyFloat two_1000) (PyFloat (dec 1 0)),
            PyFloat (Inf False))"
  by code_simp


lemma small_grid_values:
  "fusion (PyFloat (dec 1 0)) (PyFloat (dec 3 0)) (PyFloat (dec 4 0)) (PyFloat (dec 5 (- 1)))
     = Inr (PyFloat (dec 6 0))"
  "fusion (PyFloat (dec 1 0)) (PyFloat (dec 3 0)) (PyFloat (dec 4 0)) (PyFloat (dec 1 0))
     = Inr (PyFloat (dec 9 0))"
  "fusion (PyFloat (dec 2 0)) (PyFloat (dec 3 0)) (PyFloat (dec 4 0)) (PyFloat (dec 5 (- 1)))
     = Inr (PyFloat (dec 12 0))"
  "fusion (PyFloat (dec 2 0)) (PyFloat (dec 3 0)) (PyFloat (dec 4 0)) (PyFloat (dec 1 0))
     = Inr (PyFloat (dec 18 0))"
  "\<not> is_nan (dec 6 0)" "\<not> is_nan (dec 9 0)"
  "\<not> is_nan (dec 12 0)" "\<not> is_nan (dec 18 0)"
  "sgt (PyFloat (dec 18 0)) neg_inf"
  by code_simp+

text \<open>
  Claim C2, as amended, on a grid of four points with the values 6, 9, 12, 18.
\<close>

theorem optimize_maximal_witness:
  "find_best_parameters [PyFloat (dec 1 0), PyFloat (dec 2 0)] [PyFloat (dec 3 0)]
       [PyFloat (dec 4 0)] [PyFloat (dec 5 (- 1)), PyFloat (dec 1 0)]
     = Inr (params_of (PyFloat (dec 2 0)) (PyFloat (dec 3 0)) (PyFloat (dec 4 0)) (PyFloat (dec 1 0)),
            PyFloat (dec 18 0))
   \<and> (\<exists>n\<in>set [PyFloat (dec 1 0), PyFloat (dec 2 0)]. \<exists>T\<in>set [PyFloat (dec 3 0)].
       \<exists>E\<in>set [PyFloat (dec 4 0)]. \<exists>tau\<in>set [PyFloat (dec 5 (- 1)), PyFloat (dec 1 0)].
       \<exists>max_output.
         find_best_parameters [PyFloat (dec 1 0), PyFloat (dec 2 0)] [PyFloat (dec 3 0)]
             [PyFloat (dec 4 0)] [PyFloat (dec 5 (- 1)), PyFloat (dec 1 0)]
           = Inr (params_of n T E tau, max_output)
         \<and> fusion n T E tau = Inr max_output
         \<and> (\<forall>n'\<in>set [PyFloat (dec 1 0), PyFloat (dec 2 0)]. \<forall>T'\<in>set [PyFloat (dec 3 0)].
              \<forall>E'\<in>set [PyFloat (dec 4 0)]. \<forall>tau'\<in>set [PyFloat (dec 5 (- 1)), PyFloat (dec 1 0)].
                \<exists>v. fusion n' T' E' tau' = Inr v \<and> sge max_output v))"
proof -
  let ?ns = "[PyFloat (dec 1 0), PyFloat (dec 2 0)]" and ?Ts = "[PyFloat (dec 3 0)]"
    and ?Es = "[PyFloat (dec 4 0)]" and ?taus = "[PyFloat (dec 5 (- 1)), PyFloat (dec 1 0)]"
  have defined: "\<forall>n\<in>set ?ns. \<forall>T\<in>set ?Ts. \<forall>E\<in>set ?Es. \<forall>tau\<in>set ?taus.
      \<exists>v. fusion n T E tau = Inr v \<and> \<not> is_nan (dbl v)"
    by (simp add: small_grid_values)
  have above: "\<exists>n\<in>set ?ns. \<exists>T\<in>set ?Ts. \<exists>E\<in>set ?Es. \<exists>tau\<in>set ?taus.
      \<exists>v. fusion n T E tau = Inr v \<and> sgt v neg_inf"
    by (simp add: small_grid_values)
  have run: "find_best_parameters ?ns ?Ts ?Es ?taus
     = Inr (params_of (PyFloat (dec 2 0)) (PyFloat (dec 3 0)) (PyFloat (dec 4 0)) (PyFloat (dec 1 0)),
            PyFloat (dec 18 0))"
    by code_simp
  from optimize_maximal [OF defined above] run show ?thesis by simp
qed

lemma tie_grid_values:
  "fusion (PyFloat (dec 1 0)) (PyFloat (dec 3 0)) (PyFloat (dec 2 0)) (PyFloat (dec 5 (- 1)))
     = Inr (PyFloat (dec 0 0))"
  "fusion (PyFloat (dec 2 0)) (PyFloat (dec 3 0)) (PyFloat (dec 2 0)) (PyFloat (dec 5 (- 1)))
     = Inr (PyFloat (dec 0 0))"
  "fusion (PyFloat NaN) (PyFloat (dec 3 0)) (PyFloat (dec 2 0)) (PyFloat (dec 5 (- 1)))
     = Inr (PyFloat NaN)"
  "sgt (PyFloat (dec 0 0)) neg_inf"
  by code_simp+

lemma tie_grid_run:
  "find_best_parameters [PyFloat (dec 1 0), PyFloat (dec 2 0), PyFloat NaN] [PyFloat (dec 3 0)]
        [PyFloat (dec 2 0)] [PyFloat (dec 5 (- 1))]
     = Inr (params_of (PyFloat (dec 1 0)) (PyFloat (dec 3 0)) (PyFloat (dec 2 0))
              (PyFloat (dec 5 (- 1))), PyFloat (dec 0 0))"
  by code_simp

text \<open>
  Claim C3, as amended, on three points: two tie at the value 0 and the third,
  with \<open>n\<close> not-a-number, evaluates to not-a-number. The search returns the
  first, \<open>n = 1\<close>, with the value 0.
\<close>

theorem optimize_first_maximizer_witness:
  "fusion (PyFloat (dec 1 0)) (PyFloat (dec 3 0)) (PyFloat (dec 2 0)) (PyFloat (dec 5 (- 1)))
     = Inr (PyFloat (dec 0 0))
   \<and> fusion (PyFloat (dec 2 0)) (PyFloat (dec 3 0)) (PyFloat (dec 2 0)) (PyFloat (dec 5 (- 1)))
     = Inr (PyFloat (dec 0 0))
   \<and> fusion (PyFloat NaN) (PyFloat (dec 3 0)) (PyFloat (dec 2 0)) (PyFloat (dec 5 (- 1)))
     = Inr (PyFloat NaN)
   \<and> find_best_parameters [PyFloat (dec 1 0), PyFloat (dec 2 0), PyFloat NaN] [PyFloat (dec 3 0)]
        [PyFloat (dec 2 0)] [PyFloat (dec 5 (- 1))]
     = Inr (params_of (PyFloat (dec 1 0)) (PyFloat (dec 3 0)) (PyFloat (dec 2 0))
              (PyFloat (dec 5 (- 1))), PyFloat (dec 0 0))
   \<and> (\<exists>ns1 n ns2 Ts1 T Ts2 Es1 E Es2 taus1 tau taus2 max_output.
         [PyFloat (dec 1 0), PyFloat (dec 2 0), PyFloat NaN] = ns1 @ n # ns2
         \<and> [PyFloat (dec 3 0)] = Ts1 @ T # Ts2
         \<and> [PyFloat (dec 2 0)] = Es1 @ E # Es2 \<and> [PyFloat (dec 5 (- 1))] = taus1 @ tau # taus2
         \<and> find_best_parameters [PyFloat (dec 1 0), PyFloat (dec 2 0), PyFloat NaN] [PyFloat (dec 3 0)]
              [PyFloat (dec 2 0)] [PyFloat (dec 5 (- 1))]
             = Inr (params_of n T E tau, max_output)
         \<and> fusion n T E tau = Inr max_output
         \<and> \<not> is_nan (dbl max_output) \<and> sgt max_output neg_inf
         \<and> (\<forall>n'\<in>set [PyFloat (dec 1 0), PyFloat (dec 2 0), PyFloat NaN]. \<forall>T'\<in>set [PyFloat (dec 3 0)].
              \<forall>E'\<in>set [PyFloat (dec 2 0)]. \<forall>tau'\<in>set [PyFloat (dec 5 (- 1))].
                \<exists>v. fusion n' T' E' tau' = Inr v \<and> \<not> sgt v max_output)
         \<and> (\<forall>n'\<in>set ns1. \<forall>T'\<in>set [PyFloat (dec 3 0)]. \<forall>E'\<in>set [PyFloat (dec 2 0)].
              \<forall>tau'\<in>set [PyFloat (dec 5 (- 1))].
                \<exists>v. fusion n' T' E' tau' = Inr v \<and> \<not> sge v max_output)
         \<and> (\<forall>T'\<in>set Ts1. \<forall>E'\<in>set [PyFloat (dec 2 0)]. \<forall>tau'\<in>set [PyFloat (dec 5 (- 1))].
                \<exists>v. fusion n T' E' tau' = Inr v \<and> \<not> sge v max_output)
         \<and> (\<forall>E'\<in>set Es1. \<forall>tau'\<in>set [PyFloat (dec 5 (- 1))].
                \<exists>v. fusion n T E' tau' = Inr v \<and> \<not> sge v max_output)
         \<and> (\<forall>tau'\<in>set taus1.
                \<exists>v. fusion n T E tau' = Inr v \<and> \<not> sge v max_output))"
proof -
  let ?ns = "[PyFloat (dec 1 0), PyFloat (dec 2 0), PyFloat NaN]" and ?Ts = "[PyFloat (dec 3 0)]"
    and ?Es = "[PyFloat (dec 2 0)]" and ?taus = "[PyFloat (dec 5 (- 1))]"
  have defined: "\<forall>n\<in>set ?ns. \<forall>T\<in>set ?Ts. \<forall>E\<in>set ?Es. \<forall>tau\<in>set ?taus.
      \<exists>v. fusion n T E tau = Inr v"
    by (simp add: tie_grid_values)
  have above: "\<exists>n\<in>set ?ns. \<exists>T\<in>set ?Ts. \<exists>E\<in>set ?Es. \<exists>tau\<in>set ?taus.
      \<exists>v. fusion n T E tau = Inr v \<and> sgt v neg_inf"
    by (simp add: tie_grid_values)
  have "(\<exists>ns1 n ns2 Ts1 T Ts2 Es1 E Es2 taus1 tau taus2 max_output.
         [PyFloat (dec 1 0), PyFloat (dec 2 0), PyFloat NaN] = ns1 @ n # ns2
         \<and> [PyFloat (dec 3 0)] = Ts1 @ T # Ts2
         \<and> [PyFloat (dec 2 0)] = Es1 @ E # Es2 \<and> [PyFloat (dec 5 (- 1))] = taus1 @ tau # taus2
         \<and> find_best_parameters [PyFloat (dec 1 0), PyFloat (dec 2 0), PyFloat NaN] [PyFloat (dec 3 0)]
              [PyFloat (dec 2 0)] [PyFloat (dec 5 (- 1))]
             = Inr (params_of n T E tau, max_output)
         \<and> fusion n T E tau = Inr max_output
         \<and> \<not> is_nan (dbl max_output) \<and> sgt max_output neg_inf
         \<and> (\<forall>n'\<in>set [PyFloat (dec 1 0), PyFloat (dec 2 0), PyFloat NaN]. \<forall>T'\<in>set [PyFloat (dec 3 0)].
              \<forall>E'\<in>set [PyFloat (dec 2 0)]. \<forall>tau'\<in>set [PyFloat (dec 5 (- 1))].
                \<exists>v. fusion n' T' E' tau' = Inr v \<and> \<not> sgt v max_output)
         \<and> (\<forall>n'\<in>set ns1. \<forall>T'\<in>set [PyFloat (dec 3 0)]. \<forall>E'\<in>set [PyFloat (dec 2 0)].
              \<forall>tau'\<in>set [PyFloat (dec 5 (- 1))].
                \<exists>v. fusion n' T' E' tau' = Inr v \<and> \<not> sge v max_output)
         \<and> (\<forall>T'\<in>set Ts1. \<forall>E'\<in>set [PyFloat (dec 2 0)]. \<forall>tau'\<in>set [PyFloat (dec 5 (- 1))].
                \<exists>v. fusion n T' E' tau' = Inr v \<and> \<not> sge v max_output)
         \<and> (\<forall>E'\<in>set Es1. \<forall>tau'\<in>set [PyFloat (dec 5 (- 1))].
                \<exists>v. fusion n T E' tau' = Inr v \<and> \<not> sge v max_output)
         \<and> (\<forall>tau'\<in>set taus1.
                \<exists>v. fusion n T E tau' = Inr v \<and> \<not> sge v max_output))"
    by (rule optimize_first_maximizer [OF defined above])
  with tie_grid_values(1,2,3) tie_grid_run show ?thesis by (intro conjI)
qed

text \<open>
  Claim C4, as amended, with an empty first range and with one combination.
\<close>

theorem optimize_boundary_witness:
  "([] = [] \<or> scenario_T = [] \<or> scenario_E = [] \<or> scenario_tau = [])
   \<and> find_best_parameters [] scenario_T scenario_E scenario_tau = Inr ([], neg_inf)
   \<and> fusion (PyFloat (dec 2 0)) (PyFloat (dec 3 0)) (PyFloat (dec 4 0)) (PyFloat (dec 1 0))
       = Inr (PyFloat (dec 18 0))
   \<and> sgt (PyFloat (dec 18 0)) neg_inf
   \<and> find_best_parameters [PyFloat (dec 2 0)] [PyFloat (dec 3 0)] [PyFloat (dec 4 0)]
        [PyFloat (dec 1 0)]
     = Inr (params_of (PyFloat (dec 2 0)) (PyFloat (dec 3 0)) (PyFloat (dec 4 0)) (PyFloat (dec 1 0)),
            PyFloat (dec 18 0))"
  using optimize_boundary [of "[]" scenario_T scenario_E scenario_tau
      "PyFloat (dec 2 0)" "PyFloat (dec 3 0)" "PyFloat (dec 4 0)" "PyFloat (dec 1 0)"
      "PyFloat (dec 18 0)"]
    small_grid_values(4,9)
  by simp

lemma plus_inf_run:
  "find_best_parameters [PyFloat (dec 1 0), PyFloat two_1000] [PyFloat (dec 1 0)]
       [PyFloat two_1000] [PyFloat (dec 1 0)]
     = Inr (params_of (PyFloat two_1000) (PyFloat (dec 1 0)) (PyFloat two_1000) (PyFloat (dec 1 0)),
            PyFloat (Inf False))"
  "fusion (PyFloat two_1000) (PyFloat (dec 1 0)) (PyFloat two_1000) (PyFloat (dec 1 0))
     = Inr (PyFloat (Inf False))"
  by code_simp+

text \<open>
  Claim C7, as amended, on two points, the second of which evaluates to plus
  infinity.
\<close>

theorem optimize_nonfinite_witness:
  "find_best_parameters [PyFloat (dec 1 0), PyFloat two_1000] [PyFloat (dec 1 0)]
       [PyFloat two_1000] [PyFloat (dec 1 0)]
     = Inr (params_of (PyFloat two_1000) (PyFloat (dec 1 0)) (PyFloat two_1000) (PyFloat (dec 1 0)),
            PyFloat (Inf False))
   \<and> \<not> is_nan (dbl (PyFloat (Inf False)))
   \<and> dbl (PyFloat (Inf False)) \<noteq> Inf True
   \<and> (\<exists>n\<in>set [PyFloat (dec 1 0), PyFloat two_1000]. \<exists>T\<in>set [PyFloat (dec 1 0)].
         \<exists>E\<in>set [PyFloat two_1000]. \<exists>tau\<in>set [PyFloat (dec 1 0)].
           \<exists>v. fusion n T E tau = Inr v \<and> dbl v = Inf False)
   \<and> params_of (PyFloat two_1000) (PyFloat (dec 1 0)) (PyFloat two_1000) (PyFloat (dec 1 0)) \<noteq> []"
proof -
  have some: "\<exists>n\<in>set [PyFloat (dec 1 0), PyFloat two_1000]. \<exists>T\<in>set [PyFloat (dec 1 0)].
         \<exists>E\<in>set [PyFloat two_1000]. \<exists>tau\<in>set [PyFloat (dec 1 0)].
           \<exists>v. fusion n T E tau = Inr v \<and> dbl v = Inf False"
    by (simp add: plus_inf_run(2))
  from optimize_nonfinite [OF plus_inf_run(1)] some plus_inf_run(1) show ?thesis by blast
qed

section \<open>The multipliers of the sweep\<close>

text \<open>The 100 values of \<^verbatim>\<open>np.linspace(0.1, 2, 100)\<close>, computed from \<open>linspace\<close>.\<close>

lemma multipliers_eq:
  "multipliers =
     [NpFloat64 (Fin False 7205759403792794 (- 56)),
      NpFloat64 (Fin False 8588682925732825 (- 56)),
      NpFloat64 (Fin False 4985803223836428 (- 55)),
      NpFloat64 (Fin False 5677264984806444 (- 55)),
      NpFloat64 (Fin False 6368726745776459 (- 55)),
      NpFloat64 (Fin False 7060188506746474 (- 55)),
      NpFloat64 (Fin False 7751650267716490 (- 55)),
      NpFloat64 (Fin False 8443112028686505 (- 55)),
      NpFloat64 (Fin False 4567286894828260 (- 54)),
      NpFloat64 (Fin False 4913017775313268 (- 54)),
      NpFloat64 (Fin False 5258748655798276 (- 54)),
      NpFloat64 (Fin False 5604479536283284 (- 54)),
      NpFloat64 (Fin False 5950210416768292 (- 54)),
      NpFloat64 (Fin False 6295941297253300 (- 54)),
      NpFloat64 (Fin False 6641672177738306 (- 54)),
      NpFloat64 (Fin False 6987403058223314 (- 54)),
      NpFloat64 (Fin False 7333133938708322 (- 54)),
      NpFloat64 (Fin False 7678864819193330 (- 54)),
      NpFloat64 (Fin False 8024595699678338 (- 54)),
      NpFloat64 (Fin False 8370326580163346 (- 54)),
      NpFloat64 (Fin False 8716057460648354 (- 54)),
      NpFloat64 (Fin False 4530894170566681 (- 53)),
      NpFloat64 (Fin False 4703759610809184 (- 53)),
      NpFloat64 (Fin False 4876625051051688 (- 53)),
      NpFloat64 (Fin False 5049490491294192 (- 53)),
      NpFloat64 (Fin False 5222355931536696 (- 53)),
      NpFloat64 (Fin False 5395221371779200 (- 53)),
      NpFloat64 (Fin False 5568086812021704 (- 53)),
      NpFloat64 (Fin False 5740952252264207 (- 53)),
      NpFloat64 (Fin False 5913817692506711 (- 53)),
      NpFloat64 (Fin False 6086683132749215 (- 53)),
      NpFloat64 (Fin False 6259548572991719 (- 53)),
      NpFloat64 (Fin False 6432414013234223 (- 53)),
      NpFloat64 (Fin False 6605279453476727 (- 53)),
      NpFloat64 (Fin False 6778144893719231 (- 53)),
      NpFloat64 (Fin False 6951010333961735 (- 53)),
      NpFloat64 (Fin False 7123875774204239 (- 53)),
      NpFloat64 (Fin False 7296741214446742 (- 53)),
      NpFloat64 (Fin False 7469606654689246 (- 53)),
      NpFloat64 (Fin False 7642472094931750 (- 53)),
      NpFloat64 (Fin False 7815337535174254 (- 53)),
      NpFloat64 (Fin False 7988202975416758 (- 53)),
      NpFloat64 (Fin False 8161068415659262 (- 53)),
      NpFloat64 (Fin False 8333933855901766 (- 53)),
      NpFloat64 (Fin False 8506799296144269 (- 53)),
      NpFloat64 (Fin False 8679664736386773 (- 53)),
      NpFloat64 (Fin False 8852530176629277 (- 53)),
      NpFloat64 (Fin False 4512697808435891 (- 52)),
      NpFloat64 (Fin False 4599130528557143 (- 52)),
      NpFloat64 (Fin False 4685563248678395 (- 52)),
      NpFloat64 (Fin False 4771995968799647 (- 52)),
      NpFloat64 (Fin False 4858428688920899 (- 52)),
      NpFloat64 (Fin False 4944861409042151 (- 52)),
      NpFloat64 (Fin False 5031294129163403 (- 52)),
      NpFloat64 (Fin False 5117726849284655 (- 52)),
      NpFloat64 (Fin False 5204159569405907 (- 52)),
      NpFloat64 (Fin False 5290592289527158 (- 52)),
      NpFloat64 (Fin False 5377025009648410 (- 52)),
      NpFloat64 (Fin False 5463457729769662 (- 52)),
      NpFloat64 (Fin False 5549890449890914 (- 52)),
      NpFloat64 (Fin False 5636323170012166 (- 52)),
      NpFloat64 (Fin False 5722755890133418 (- 52)),
      NpFloat64 (Fin False 5809188610254670 (- 52)),
      NpFloat64 (Fin False 5895621330375922 (- 52)),
      NpFloat64 (Fin False 5982054050497174 (- 52)),
      NpFloat64 (Fin False 6068486770618426 (- 52)),
      NpFloat64 (Fin False 6154919490739678 (- 52)),
      NpFloat64 (Fin False 6241352210860930 (- 52)),
      NpFloat64 (Fin False 6327784930982182 (- 52)),
      NpFloat64 (Fin False 6414217651103434 (- 52)),
      NpFloat64 (Fin False 6500650371224686 (- 52)),
      NpFloat64 (Fin False 6587083091345938 (- 52)),
      NpFloat64 (Fin False 6673515811467190 (- 52)),
      NpFloat64 (Fin False 6759948531588441 (- 52)),
      NpFloat64 (Fin False 6846381251709693 (- 52)),
      NpFloat64 (Fin False 6932813971830945 (- 52)),
      NpFloat64 (Fin False 7019246691952197 (- 52)),
      NpFloat64 (Fin False 7105679412073449 (- 52)),
      NpFloat64 (Fin False 7192112132194701 (- 52)),
      NpFloat64 (Fin False 7278544852315953 (- 52)),
      NpFloat64 (Fin False 7364977572437205 (- 52)),
      NpFloat64 (Fin False 7451410292558457 (- 52)),
      NpFloat64 (Fin False 7537843012679709 (- 52)),
      NpFloat64 (Fin False 7624275732800961 (- 52)),
      NpFloat64 (Fin False 7710708452922213 (- 52)),
      NpFloat64 (Fin False 7797141173043465 (- 52)),
      NpFloat64 (Fin False 7883573893164717 (- 52)),
      NpFloat64 (Fin False 7970006613285969 (- 52)),
      NpFloat64 (Fin False 8056439333407220 (- 52)),
      NpFloat64 (Fin False 8142872053528472 (- 52)),
      NpFloat64 (Fin False 8229304773649724 (- 52)),
      NpFloat64 (Fin False 8315737493770976 (- 52)),
      NpFloat64 (Fin False 8402170213892228 (- 52)),
      NpFloat64 (Fin False 8488602934013480 (- 52)),
      NpFloat64 (Fin False 8575035654134732 (- 52)),
      NpFloat64 (Fin False 8661468374255984 (- 52)),
      NpFloat64 (Fin False 8747901094377236 (- 52)),
      NpFloat64 (Fin False 8834333814498488 (- 52)),
      NpFloat64 (Fin False 8920766534619740 (- 52)),
      NpFloat64 (Fin False 4503599627370496 (- 51))]"
  by code_simp

lemma multipliers_length: "length multipliers = 100"
  by (simp add: multipliers_eq)

lemma multipliers_ends:
  "multipliers ! 0 = NpFloat64 (dec 1 (- 1))" "multipliers ! 99 = NpFloat64 (dec 2 0)"
proof -
  have "dec 1 (- 1) = Fin False 7205759403792794 (- 56)" "dec 2 0 = Fin False 4503599627370496 (- 51)"
    by code_simp+
  then show "multipliers ! 0 = NpFloat64 (dec 1 (- 1))" "multipliers ! 99 = NpFloat64 (dec 2 0)"
    by (simp_all add: multipliers_eq)
qed

lemma multipliers_np: "\<forall>val\<in>set multipliers. is_np val"
  by (simp add: multipliers_eq)

lemma multipliers_successively: "successively (\<lambda>a b. sgt b a) multipliers"
  unfolding multipliers_eq by code_simp

lemma multipliers_close:
  "list_all2 (\<lambda>x r. \<bar>dval (dbl x) - r\<bar> \<le> 1 / 2 ^ 52) multipliers
     (map (\<lambda>i. 1 / 10 + real i * (19 / 990)) [0..<100])"
  unfolding multipliers_eq by code_simp


lemma multipliers_sorted: "sorted_wrt (\<lambda>a b. sgt b a) multipliers"
proof -
  have "transp (\<lambda>a b. sgt b a)"
    by (rule transpI) (blast intro: sgt_trans)
  from successively_conv_sorted_wrt [OF this] multipliers_successively show ?thesis by blast
qed

lemma multipliers_spacing:
  "\<forall>i<100. \<bar>dval (dbl (multipliers ! i)) - (1 / 10 + real i * (19 / 990))\<bar> \<le> 1 / 2 ^ 52"
proof (intro allI impI)
  fix i :: nat
  assume i: "i < 100"
  from multipliers_close have
    "\<bar>dval (dbl (multipliers ! i)) - map (\<lambda>i. 1 / 10 + real i * (19 / 990)) [0..<100] ! i\<bar> \<le> 1 / 2 ^ 52"
    by (rule list_all2_nthD) (simp add: multipliers_length i)
  with i show "\<bar>dval (dbl (multipliers ! i)) - (1 / 10 + real i * (19 / 990))\<bar> \<le> 1 / 2 ^ 52"
    by simp
qed

section \<open>What the sweep returns\<close>

lemma is_np_wrap [simp]: "is_np (wrap b x) = b"
  by (simp add: wrap_def)

lemma is_np_smul [simp]: "is_np (smul a b) = (is_np a \<or> is_np b)"
  by (simp add: smul_def)

lemma fusion_Inr:
  assumes "is_np n \<or> is_np T \<or> is_np tau \<or> \<not> is_zero (dbl tau)"
  shows "\<exists>v. fusion n T E tau = Inr v"
  using assms by (auto simp: fusion_def truediv_def)

lemma append_outputs_Inr:
  assumes "append_outputs body vals outputs = Inr ys"
  shows "\<exists>zs. ys = outputs @ zs \<and> length zs = length vals
           \<and> (\<forall>i<length vals. body (vals ! i) = Inr (zs ! i))"
  using assms
proof (induction vals arbitrary: outputs)
  case Nil
  then show ?case by simp
next
  case (Cons val vals)
  from Cons.prems obtain out where out: "body val = Inr out"
    by (cases "body val") simp_all
  with Cons.prems have "append_outputs body vals (outputs @ [out]) = Inr ys" by simp
  from Cons.IH [OF this] obtain zs where
    zs: "ys = (outputs @ [out]) @ zs" "length zs = length vals"
      "\<forall>i<length vals. body (vals ! i) = Inr (zs ! i)"
    by blast
  have "\<forall>i<length (val # vals). body ((val # vals) ! i) = Inr ((out # zs) ! i)"
  proof (intro allI impI)
    fix i
    assume "i < length (val # vals)"
    then show "body ((val # vals) ! i) = Inr ((out # zs) ! i)"
      using out zs(3) by (cases i) simp_all
  qed
  moreover have "ys = outputs @ out # zs" by (simp add: zs(1))
  moreover have "length (out # zs) = length (val # vals)" by (simp add: zs(2))
  ultimately show ?case by blast
qed

lemma append_outputs_returns:
  assumes "\<forall>val\<in>set vals. \<exists>out. body val = Inr out"
  shows "\<exists>ys. append_outputs body vals outputs = Inr ys"
  using assms
proof (induction vals arbitrary: outputs)
  case Nil
  show ?case by simp
next
  case (Cons val vals)
  from Cons.prems obtain out where out: "body val = Inr out" by auto
  from Cons.prems have "\<forall>val\<in>set vals. \<exists>out. body val = Inr out" by simp
  from Cons.IH [OF this] show ?case by (simp add: out)
qed

lemma create_parameter_impact_plots_alt:
  "create_parameter_impact_plots selected_parameter n T E tau =
     (case append_outputs (sweep_body selected_parameter n T E tau) multipliers [] of
        Inl err \<Rightarrow> Inl err
      | Inr outputs \<Rightarrow>
          Inr \<lparr>fig_x = multipliers, fig_y = outputs,
               fig_title = ''Energy Output vs. '' @ selected_parameter,
               fig_xaxis_title = x_label_of selected_parameter,
               fig_yaxis_title = ''Energy Output''\<rparr>)"
proof -
  consider (pd) "selected_parameter = ''Particle Density''"
    | (te) "selected_parameter \<noteq> ''Particle Density''" "selected_parameter = ''Temperature''"
    | (er) "selected_parameter \<noteq> ''Particle Density''" "selected_parameter \<noteq> ''Temperature''"
        "selected_parameter = ''Energy Release''"
    | (ct) "selected_parameter \<noteq> ''Particle Density''" "selected_parameter \<noteq> ''Temperature''"
        "selected_parameter \<noteq> ''Energy Release''"
    by blast
  then show ?thesis
  proof cases
    case pd
    then show ?thesis
      by (simp add: create_parameter_impact_plots_def multipliers_def sweep_body_def x_label_of_def
          Let_def split: sum.splits)
  next
    case te
    then show ?thesis
      by (simp add: create_parameter_impact_plots_def multipliers_def sweep_body_def x_label_of_def
          Let_def split: sum.splits)
  next
    case er
    then show ?thesis
      by (simp add: create_parameter_impact_plots_def multipliers_def sweep_body_def x_label_of_def
          Let_def split: sum.splits)
  next
    case ct
    then show ?thesis
      by (simp add: create_parameter_impact_plots_def multipliers_def sweep_body_def x_label_of_def
          Let_def split: sum.splits)
  qed
qed

lemma sweep_body_returns:
  assumes np: "is_np val"
    and ok: "selected_parameter = ''Energy Release''
           \<longrightarrow> is_np n \<or> is_np T \<or> is_np tau \<or> \<not> is_zero (dbl tau)"
  shows "\<exists>out. sweep_body selected_parameter n T E tau val = Inr out"
proof -
  have a: "\<exists>out. fusion (smul val n) T E tau = Inr out" using np by (intro fusion_Inr) simp
  have b: "\<exists>out. fusion n (smul val T) E tau = Inr out" using np by (intro fusion_Inr) simp
  have c: "\<exists>out. fusion n T E (smul val tau) = Inr out" using np by (intro fusion_Inr) simp
  have d: "\<exists>out. fusion n T (smul val E) tau = Inr out" if "selected_parameter = ''Energy Release''"
    using ok that by (intro fusion_Inr) simp
  show ?thesis
  proof (cases "selected_parameter = ''Energy Release''")
    case True
    with d show ?thesis by (simp add: sweep_body_def)
  next
    case False
    with a b c show ?thesis by (simp add: sweep_body_def)
  qed
qed
lemma sweep_returns:
  assumes "selected_parameter = ''Energy Release''
           \<longrightarrow> is_np n \<or> is_np T \<or> is_np tau \<or> \<not> is_zero (dbl tau)"
  shows "\<exists>outputs. create_parameter_impact_plots selected_parameter n T E tau
           = Inr \<lparr>fig_x = multipliers, fig_y = outputs,
                  fig_title = ''Energy Output vs. '' @ selected_parameter,
                  fig_xaxis_title = x_label_of selected_parameter,
                  fig_yaxis_title = ''Energy Output''\<rparr>
         \<and> length outputs = 100
         \<and> (\<forall>i<100. sweep_body selected_parameter n T E tau (multipliers ! i) = Inr (outputs ! i))"
proof -
  have "\<forall>val\<in>set multipliers. \<exists>out. sweep_body selected_parameter n T E tau val = Inr out"
    using multipliers_np assms by (blast intro: sweep_body_returns)
  from append_outputs_returns [OF this] obtain ys where
    ys: "append_outputs (sweep_body selected_parameter n T E tau) multipliers [] = Inr ys"
    by blast
  from append_outputs_Inr [OF ys] have
    "length ys = 100" "\<forall>i<100. sweep_body selected_parameter n T E tau (multipliers ! i) = Inr (ys ! i)"
    by (simp_all add: multipliers_length)
  with ys show ?thesis by (simp add: create_parameter_impact_plots_alt)
qed

lemma sweep_default:
  assumes "selected_parameter \<notin> {''Particle Density'', ''Temperature'', ''Energy Release''}"
  shows "\<exists>fig. create_parameter_impact_plots ''Confinement Time'' n T E tau = Inr fig
           \<and> create_parameter_impact_plots selected_parameter n T E tau
               = Inr (fig\<lparr>fig_title := ''Energy Output vs. '' @ selected_parameter\<rparr>)
           \<and> fig_xaxis_title fig = ''Confinement Time Multiplier''"
proof -
  have body: "sweep_body selected_parameter n T E tau = sweep_body ''Confinement Time'' n T E tau"
    using assms by (auto simp: sweep_body_def fun_eq_iff)
  have label: "x_label_of selected_parameter = ''Confinement Time Multiplier''"
    "x_label_of ''Confinement Time'' = ''Confinement Time Multiplier''"
    using assms by (auto simp: x_label_of_def)
  have "''Confinement Time'' = ''Energy Release''
          \<longrightarrow> is_np n \<or> is_np T \<or> is_np tau \<or> \<not> is_zero (dbl tau)" by simp
  from sweep_returns [OF this] obtain outputs where
    "create_parameter_impact_plots ''Confinement Time'' n T E tau
       = Inr \<lparr>fig_x = multipliers, fig_y = outputs,
              fig_title = ''Energy Output vs. '' @ ''Confinement Time'',
              fig_xaxis_title = x_label_of ''Confinement Time'',
              fig_yaxis_title = ''Energy Output''\<rparr>"
    by blast
  then show ?thesis
    by (simp add: create_parameter_impact_plots_alt body label split: sum.splits)
qed

text \<open>
  Claim C5. For each of the four selectors and all parameter values with \<open>tau\<close>
  not zero, the sweep returns 100 multipliers and 100 outputs. The first
  multiplier is \<open>0.1\<close>, the last \<open>2.0\<close>, each is less than all later ones, and
  multiplier \<open>i\<close> is within \<open>2^-52\<close> of \<open>0.1 + i * 1.9 / 99\<close>, the \<open>i\<close>-th of 100
  equally spaced points of the interval from \<open>0.1\<close> to \<open>2.0\<close>. Output \<open>i\<close> is the
  value of \<open>fusion\<close> with the selected parameter replaced by \<open>m\<close> times its
  value and the other three unchanged, \<open>m\<close> being multiplier \<open>i\<close> as the
  \<^verbatim>\<open>float64\<close> the loop takes from the array. The hypothesis is wider than \<open>tau\<close>
  not zero: a zero \<open>tau\<close> is excluded only where the division of \<open>fusion\<close> is
  one of two Python floats.
\<close>

theorem sweep_result:
  assumes sel: "selected_parameter
           \<in> {''Particle Density'', ''Temperature'', ''Energy Release'', ''Confinement Time''}"
    and ok: "\<not> is_zero (dbl tau) \<or> selected_parameter \<noteq> ''Energy Release''
           \<or> is_np n \<or> is_np T \<or> is_np tau"
  shows "\<exists>fig. create_parameter_impact_plots selected_parameter n T E tau = Inr fig
     \<and> length (fig_x fig) = 100 \<and> length (fig_y fig) = 100
     \<and> dbl (fig_x fig ! 0) = dec 1 (- 1) \<and> dbl (fig_x fig ! 99) = dec 2 0
     \<and> sorted_wrt (\<lambda>a b. sgt b a) (fig_x fig)
     \<and> (\<forall>i<100. \<bar>dval (dbl (fig_x fig ! i)) - (1 / 10 + real i * (19 / 990))\<bar> \<le> 1 / 2 ^ 52)
     \<and> (\<forall>i<100. \<exists>m out.
          is_np m \<and> dbl m = dbl (fig_x fig ! i) \<and> dbl out = dbl (fig_y fig ! i)
        \<and> (selected_parameter = ''Particle Density''
             \<longrightarrow> fusion (smul m n) T E tau = Inr out)
        \<and> (selected_parameter = ''Temperature''
             \<longrightarrow> fusion n (smul m T) E tau = Inr out)
        \<and> (selected_parameter = ''Energy Release''
             \<longrightarrow> fusion n T (smul m E) tau = Inr out)
        \<and> (selected_parameter = ''Confinement Time''
             \<longrightarrow> fusion n T E (smul m tau) = Inr out))"
proof -
  from ok have ok': "selected_parameter = ''Energy Release''
           \<longrightarrow> is_np n \<or> is_np T \<or> is_np tau \<or> \<not> is_zero (dbl tau)"
    by blast
  from sweep_returns [OF ok'] obtain outputs where
    run: "create_parameter_impact_plots selected_parameter n T E tau
           = Inr \<lparr>fig_x = multipliers, fig_y = outputs,
                  fig_title = ''Energy Output vs. '' @ selected_parameter,
                  fig_xaxis_title = x_label_of selected_parameter,
                  fig_yaxis_title = ''Energy Output''\<rparr>"
    and len: "length outputs = 100"
    and out: "\<forall>i<100. sweep_body selected_parameter n T E tau (multipliers ! i) = Inr (outputs ! i)"
    by blast
  have pairs: "\<forall>i<100. \<exists>m out.
          is_np m \<and> dbl m = dbl (multipliers ! i) \<and> dbl out = dbl (outputs ! i)
        \<and> (selected_parameter = ''Particle Density''
             \<longrightarrow> fusion (smul m n) T E tau = Inr out)
        \<and> (selected_parameter = ''Temperature''
             \<longrightarrow> fusion n (smul m T) E tau = Inr out)
        \<and> (selected_parameter = ''Energy Release''
             \<longrightarrow> fusion n T (smul m E) tau = Inr out)
        \<and> (selected_parameter = ''Confinement Time''
             \<longrightarrow> fusion n T E (smul m tau) = Inr out)"
  proof (intro allI impI)
    fix i :: nat
    assume i: "i < 100"
    then have "multipliers ! i \<in> set multipliers" by (simp add: multipliers_length)
    with multipliers_np have np: "is_np (multipliers ! i)" by blast
    from out i have body: "sweep_body selected_parameter n T E tau (multipliers ! i) = Inr (outputs ! i)"
      by blast
    have "is_np (multipliers ! i) \<and> dbl (multipliers ! i) = dbl (multipliers ! i)
        \<and> dbl (outputs ! i) = dbl (outputs ! i)
        \<and> (selected_parameter = ''Particle Density''
             \<longrightarrow> fusion (smul (multipliers ! i) n) T E tau = Inr (outputs ! i))
        \<and> (selected_parameter = ''Temperature''
             \<longrightarrow> fusion n (smul (multipliers ! i) T) E tau = Inr (outputs ! i))
        \<and> (selected_parameter = ''Energy Release''
             \<longrightarrow> fusion n T (smul (multipliers ! i) E) tau = Inr (outputs ! i))
        \<and> (selected_parameter = ''Confinement Time''
             \<longrightarrow> fusion n T E (smul (multipliers ! i) tau) = Inr (outputs ! i))"
      using np body by (auto simp: sweep_body_def)
    then show "\<exists>m out.
          is_np m \<and> dbl m = dbl (multipliers ! i) \<and> dbl out = dbl (outputs ! i)
        \<and> (selected_parameter = ''Particle Density''
             \<longrightarrow> fusion (smul m n) T E tau = Inr out)
        \<and> (selected_parameter = ''Temperature''
             \<longrightarrow> fusion n (smul m T) E tau = Inr out)
        \<and> (selected_parameter = ''Energy Release''
             \<longrightarrow> fusion n T (smul m E) tau = Inr out)
        \<and> (selected_parameter = ''Confinement Time''
             \<longrightarrow> fusion n T E (smul m tau) = Inr out)"
      by (intro exI)
  qed
  have ends: "dbl (multipliers ! 0) = dec 1 (- 1)" "dbl (multipliers ! 99) = dec 2 0"
    by (simp_all add: multipliers_ends)
  from run len pairs ends multipliers_length multipliers_sorted multipliers_spacing
  show ?thesis by simp
qed

text \<open>
  Claim C6, as amended. A selector other than Particle Density, Temperature
  and Energy Release never makes the sweep fail: the sweep returns what the
  Confinement Time sweep returns, with the selector's text in the title.
\<close>

theorem sweep_unrecognized_selector:
  assumes "selected_parameter \<notin> {''Particle Density'', ''Temperature'', ''Energy Release''}"
  shows "\<exists>fig. create_parameter_impact_plots ''Confinement Time'' n T E tau = Inr fig
           \<and> create_parameter_impact_plots selected_parameter n T E tau
               = Inr (fig\<lparr>fig_title := ''Energy Output vs. '' @ selected_parameter\<rparr>)
           \<and> fig_xaxis_title fig = ''Confinement Time Multiplier''"
  using assms by (rule sweep_default)

section \<open>The sweep on concrete values\<close>

text \<open>
  Claim C5 on the Energy Release sweep of the application's values
  \<open>n = 1e20\<close>, \<open>T = 15000\<close>, \<open>E = 17.6\<close>, \<open>tau = 0.1\<close>, all Python floats.
\<close>

theorem sweep_result_witness:
  "''Energy Release'' \<in> {''Particle Density'', ''Temperature'', ''Energy Release'', ''Confinement Time''}
   \<and> \<not> is_zero (dbl (PyFloat (dec 1 (- 1))))
   \<and> (\<exists>fig. create_parameter_impact_plots ''Energy Release'' (PyFloat (dec 1 20))
              (PyFloat (dec 15000 0)) (PyFloat (dec 176 (- 1))) (PyFloat (dec 1 (- 1))) = Inr fig
       \<and> length (fig_x fig) = 100 \<and> length (fig_y fig) = 100
       \<and> dbl (fig_x fig ! 0) = dec 1 (- 1) \<and> dbl (fig_x fig ! 99) = dec 2 0
       \<and> sorted_wrt (\<lambda>a b. sgt b a) (fig_x fig)
       \<and> (\<forall>i<100. \<bar>dval (dbl (fig_x fig ! i)) - (1 / 10 + real i * (19 / 990))\<bar> \<le> 1 / 2 ^ 52)
       \<and> (\<forall>i<100. \<exists>m out.
            is_np m \<and> dbl m = dbl (fig_x fig ! i) \<and> dbl out = dbl (fig_y fig ! i)
          \<and> (''Energy Release'' = ''Particle Density''
               \<longrightarrow> fusion (smul m (PyFloat (dec 1 20))) (PyFloat (dec 15000 0))
                     (PyFloat (dec 176 (- 1))) (PyFloat (dec 1 (- 1))) = Inr out)
          \<and> (''Energy Release'' = ''Temperature''
               \<longrightarrow> fusion (PyFloat (dec 1 20)) (smul m (PyFloat (dec 15000 0)))
                     (PyFloat (dec 176 (- 1))) (PyFloat (dec 1 (- 1))) = Inr out)
          \<and> (''Energy Release'' = ''Energy Release''
               \<longrightarrow> fusion (PyFloat (dec 1 20)) (PyFloat (dec 15000 0))
                     (smul m (PyFloat (dec 176 (- 1)))) (PyFloat (dec 1 (- 1))) = Inr out)
          \<and> (''Energy Release'' = ''Confinement Time''
               \<longrightarrow> fusion (PyFloat (dec 1 20)) (PyFloat (dec 15000 0))
                     (PyFloat (dec 176 (- 1))) (smul m (PyFloat (dec 1 (- 1)))) = Inr out)))"
proof -
  have sel: "''Energy Release''
      \<in> {''Particle Density'', ''Temperature'', ''Energy Release'', ''Confinement Time''}"
    by simp
  have nz: "\<not> is_zero (dbl (PyFloat (dec 1 (- 1))))" by code_simp
  then have ok: "\<not> is_zero (dbl (PyFloat (dec 1 (- 1)))) \<or> ''Energy Release'' \<noteq> ''Energy Release''
      \<or> is_np (PyFloat (dec 1 20)) \<or> is_np (PyFloat (dec 15000 0)) \<or> is_np (PyFloat (dec 1 (- 1)))"
    by (rule disjI1)
  show ?thesis
  proof (intro conjI)
    show "''Energy Release''
      \<in> {''Particle Density'', ''Temperature'', ''Energy Release'', ''Confinement Time''}"
      by (rule sel)
    show "\<not> is_zero (dbl (PyFloat (dec 1 (- 1))))" by (rule nz)
    show "\<exists>fig. create_parameter_impact_plots ''Energy Release'' (PyFloat (dec 1 20))
              (PyFloat (dec 15000 0)) (PyFloat (dec 176 (- 1))) (PyFloat (dec 1 (- 1))) = Inr fig
       \<and> length (fig_x fig) = 100 \<and> length (fig_y fig) = 100
       \<and> dbl (fig_x fig ! 0) = dec 1 (- 1) \<and> dbl (fig_x fig ! 99) = dec 2 0
       \<and> sorted_wrt (\<lambda>a b. sgt b a) (fig_x fig)
       \<and> (\<forall>i<100. \<bar>dval (dbl (fig_x fig ! i)) - (1 / 10 + real i * (19 / 990))\<bar> \<le> 1 / 2 ^ 52)
       \<and> (\<forall>i<100. \<exists>m out.
            is_np m \<and> dbl m = dbl (fig_x fig ! i) \<and> dbl out = dbl (fig_y fig ! i)
          \<and> (''Energy Release'' = ''Particle Density''
               \<longrightarrow> fusion (smul m (PyFloat (dec 1 20))) (PyFloat (dec 15000 0))
                     (PyFloat (dec 176 (- 1))) (PyFloat (dec 1 (- 1))) = Inr out)
          \<and> (''Energy Release'' = ''Temperature''
               \<longrightarrow> fusion (PyFloat (dec 1 20)) (smul m (PyFloat (dec 15000 0)))
                     (PyFloat (dec 176 (- 1))) (PyFloat (dec 1 (- 1))) = Inr out)
          \<and> (''Energy Release'' = ''Energy Release''
               \<longrightarrow> fusion (PyFloat (dec 1 20)) (PyFloat (dec 15000 0))
                     (smul m (PyFloat (dec 176 (- 1)))) (PyFloat (dec 1 (- 1))) = Inr out)
          \<and> (''Energy Release'' = ''Confinement Time''
               \<longrightarrow> fusion (PyFloat (dec 1 20)) (PyFloat (dec 15000 0))
                     (PyFloat (dec 176 (- 1))) (smul m (PyFloat (dec 1 (- 1)))) = Inr out))"
      by (rule sweep_result [OF sel ok])
  qed
qed

text \<open>
  Claim C6, as stated, fails: with the selector \<^verbatim>\<open>'Plasma Pressure'\<close> the sweep
  raises nothing, labels its axis as the Confinement Time sweep and returns
  the outputs of the Confinement Time sweep.
\<close>

theorem sweep_unrecognized_runs_confinement_time:
  "create_parameter_impact_plots ''Plasma Pressure'' (PyFloat (dec 1 20)) (PyFloat (dec 15000 0))
      (PyFloat (dec 176 (- 1))) (PyFloat (dec 1 (- 1)))
     \<noteq> Inl ZeroDivisionError
   \<and> map_sum id fig_xaxis_title
       (create_parameter_impact_plots ''Plasma Pressure'' (PyFloat (dec 1 20)) (PyFloat (dec 15000 0))
          (PyFloat (dec 176 (- 1))) (PyFloat (dec 1 (- 1))))
     = Inr ''Confinement Time Multiplier''
   \<and> map_sum id fig_y
       (create_parameter_impact_plots ''Plasma Pressure'' (PyFloat (dec 1 20)) (PyFloat (dec 15000 0))
          (PyFloat (dec 176 (- 1))) (PyFloat (dec 1 (- 1))))
     = map_sum id fig_y
       (create_parameter_impact_plots ''Confinement Time'' (PyFloat (dec 1 20)) (PyFloat (dec 15000 0))
          (PyFloat (dec 176 (- 1))) (PyFloat (dec 1 (- 1))))"
proof -
  have "''Plasma Pressure'' \<notin> {''Particle Density'', ''Temperature'', ''Energy Release''}" by simp
  from sweep_default [OF this, of "PyFloat (dec 1 20)" "PyFloat (dec 15000 0)"
      "PyFloat (dec 176 (- 1))" "PyFloat (dec 1 (- 1))"]
  obtain fig where
    "create_parameter_impact_plots ''Confinement Time'' (PyFloat (dec 1 20)) (PyFloat (dec 15000 0))
       (PyFloat (dec 176 (- 1))) (PyFloat (dec 1 (- 1))) = Inr fig"
    "create_parameter_impact_plots ''Plasma Pressure'' (PyFloat (dec 1 20)) (PyFloat (dec 15000 0))
       (PyFloat (dec 176 (- 1))) (PyFloat (dec 1 (- 1)))
     = Inr (fig\<lparr>fig_title := ''Energy Output vs. '' @ ''Plasma Pressure''\<rparr>)"
    "fig_xaxis_title fig = ''Confinement Time Multiplier''"
    by (elim exE conjE)
  then show ?thesis by simp
qed

text \<open>
  Claim C6, as amended, on the selector \<^verbatim>\<open>'Plasma Pressure'\<close>.
\<close>

theorem sweep_unrecognized_selector_witness:
  "''Plasma Pressure'' \<notin> {''Particle Density'', ''Temperature'', ''Energy Release''}
   \<and> (\<exists>fig. create_parameter_impact_plots ''Confinement Time'' (PyFloat (dec 1 20))
              (PyFloat (dec 15000 0)) (PyFloat (dec 176 (- 1))) (PyFloat (dec 1 (- 1))) = Inr fig
         \<and> create_parameter_impact_plots ''Plasma Pressure'' (PyFloat (dec 1 20))
              (PyFloat (dec 15000 0)) (PyFloat (dec 176 (- 1))) (PyFloat (dec 1 (- 1)))
             = Inr (fig\<lparr>fig_title := ''Energy Output vs. '' @ ''Plasma Pressure''\<rparr>)
         \<and> fig_xaxis_title fig = ''Confinement Time Multiplier'')"
proof -
  have sel: "''Plasma Pressure'' \<notin> {''Particle Density'', ''Temperature'', ''Energy Release''}"
    by simp
  show ?thesis
  proof (rule conjI)
    show "''Plasma Pressure'' \<notin> {''Particle Density'', ''Temperature'', ''Energy Release''}"
      by (rule sel)
    show "\<exists>fig. create_parameter_impact_plots ''Confinement Time'' (PyFloat (dec 1 20))
              (PyFloat (dec 15000 0)) (PyFloat (dec 176 (- 1))) (PyFloat (dec 1 (- 1))) = Inr fig
         \<and> create_parameter_impact_plots ''Plasma Pressure'' (PyFloat (dec 1 20))
              (PyFloat (dec 15000 0)) (PyFloat (dec 176 (- 1))) (PyFloat (dec 1 (- 1)))
             = Inr (fig\<lparr>fig_title := ''Energy Output vs. '' @ ''Plasma Pressure''\<rparr>)
         \<and> fig_xaxis_title fig = ''Confinement Time Multiplier''"
      by (rule sweep_unrecognized_selector [OF sel])
  qed
qed

end
